theory Spec2Isabelle
  imports Complex_Main
begin

section \<open>The arithmetic of the cells\<close>

text \<open>
  The script \<^verbatim>\<open>forecast.py\<close> reads a CSV file into a pandas data frame, adds five
  columns to it and writes the frame to a second file. pandas gives each column a dtype when
  it reads the file: int64 for a column of integers without a missing entry, float64 for any
  other column of numbers, object for a column that holds text. The arithmetic of the script
  is numpy's arithmetic on these dtypes: IEEE 754 binary64 with its rounding, its infinities
  and NaN on float64, and arithmetic modulo \<open>2 ^ 64\<close> on int64. This section defines both.
\<close>

subsection \<open>float64\<close>

text \<open>
  A float64 that is not NaN is a finite binary64 number or one of the two infinities; NaN is
  the missing value of pandas and is \<open>None\<close> in a cell of type \<open>f64 option\<close>. The two zeros
  of IEEE 754 are one value here, as they are for \<^verbatim>\<open>==\<close>.
\<close>

datatype f64 = NInf | Fin real | PInf

text \<open>\<^verbatim>\<open>rint\<close>: the nearest integer, a tie going to the even one.\<close>

definition rint :: "real \<Rightarrow> real" where
  "rint x =
     (let f = \<lfloor>x\<rfloor>; d = x - of_int f
      in of_int (if d < 1 / 2 then f else if 1 / 2 < d then f + 1
                 else if even f then f else f + 1))"

text \<open>
  The binary exponent of a real number as binary64 sees it: the largest \<open>e\<close> from \<open>-1022\<close> to
  \<open>1023\<close> with \<open>2 ^ e \<le> \<bar>x\<bar>\<close>, and \<open>-1022\<close> for the subnormal numbers and zero.
\<close>

definition binade :: "real \<Rightarrow> int" where
  "binade x = Max (insert (- 1022) {e \<in> {- 1022 .. 1023}. 2 powi e \<le> \<bar>x\<bar>})"

text \<open>The nearest multiple of the unit in the last of the 53 places, a tie going to the even one.\<close>

definition nearest :: "real \<Rightarrow> real" where
  "nearest x = (let u = 2 powi (binade x - 52) in rint (x / u) * u)"

definition max_f64 :: real where
  "max_f64 = (2 ^ 53 - 1) * 2 ^ 971"

text \<open>
  The rounding of IEEE 754 in the default mode: every operation below returns the exact
  result rounded by \<open>fl\<close>, and a result beyond the largest finite number is an infinity.
\<close>

definition fl :: "real \<Rightarrow> f64" where
  "fl x = (let y = nearest x
           in if max_f64 < y then PInf else if y < - max_f64 then NInf else Fin y)"

text \<open>The float64 a decimal literal stands for: \<open>dec 13310 2\<close> is \<^verbatim>\<open>133.10\<close>.\<close>

definition dec :: "int \<Rightarrow> nat \<Rightarrow> f64" where
  "dec m d = fl (of_int m / 10 ^ d)"

text \<open>The float64 a literal in scientific notation stands for: \<open>sci 1 200\<close> is \<^verbatim>\<open>1e200\<close>.\<close>

definition sci :: "int \<Rightarrow> nat \<Rightarrow> f64" where
  "sci m e = fl (of_int m * 10 ^ e)"

fun f64_sgn :: "f64 \<Rightarrow> int" where
  "f64_sgn NInf = - 1"
| "f64_sgn (Fin a) = (if a < 0 then - 1 else if a = 0 then 0 else 1)"
| "f64_sgn PInf = 1"

text \<open>Addition: the sum of the two infinities is NaN.\<close>

fun f64_add :: "f64 \<Rightarrow> f64 \<Rightarrow> f64 option" where
  "f64_add (Fin a) (Fin b) = Some (fl (a + b))"
| "f64_add (Fin a) y = Some y"
| "f64_add x (Fin b) = Some x"
| "f64_add x y = (if x = y then Some x else None)"

text \<open>Multiplication: zero times an infinity is NaN.\<close>

fun f64_mul :: "f64 \<Rightarrow> f64 \<Rightarrow> f64 option" where
  "f64_mul (Fin a) (Fin b) = Some (fl (a * b))"
| "f64_mul x y =
     (let s = f64_sgn x * f64_sgn y
      in if s = 0 then None else if 0 < s then Some PInf else Some NInf)"

text \<open>
  \<^verbatim>\<open>x ** k\<close> for an exponent \<open>k\<close> that is a natural number: the exact power, rounded.
  numpy returns \<open>x\<close> itself for \<open>k = 1\<close>, the rounded product \<open>x * x\<close> for \<open>k = 2\<close>, and the
  \<^verbatim>\<open>pow\<close> of the C library otherwise, which is taken here to round correctly. (pandas
  evaluates the operations on a column of more than a million cells with numexpr, when that
  library is installed; such columns are not covered.)
\<close>

fun f64_pow :: "f64 \<Rightarrow> nat \<Rightarrow> f64" where
  "f64_pow (Fin a) k = fl (a ^ k)"
| "f64_pow PInf k = (if k = 0 then Fin 1 else PInf)"
| "f64_pow NInf k = (if k = 0 then Fin 1 else if even k then PInf else NInf)"

text \<open>
  \<^verbatim>\<open>numpy.round(x, d)\<close>: the product of \<open>x\<close> and \<open>10 ^ d\<close>, as a float64, is rounded to an
  integer by \<^verbatim>\<open>rint\<close> and divided by \<open>10 ^ d\<close>.
\<close>

fun f64_round :: "f64 \<Rightarrow> nat \<Rightarrow> f64" where
  "f64_round (Fin a) d =
     (case fl (a * 10 ^ d) of Fin w \<Rightarrow> fl (rint w / 10 ^ d) | PInf \<Rightarrow> PInf | NInf \<Rightarrow> NInf)"
| "f64_round PInf d = PInf"
| "f64_round NInf d = NInf"

text \<open>The order of the float64 values; NaN, which is not one of them, compares with nothing.\<close>

fun f64_le :: "f64 \<Rightarrow> f64 \<Rightarrow> bool" where
  "f64_le NInf y = True"
| "f64_le x PInf = True"
| "f64_le (Fin a) (Fin b) = (a \<le> b)"
| "f64_le x y = False"

subsection \<open>int64\<close>

text \<open>An int64 is an integer from \<open>- 2 ^ 63\<close> to \<open>2 ^ 63 - 1\<close>; the arithmetic wraps around.\<close>

definition wrap64 :: "int \<Rightarrow> int" where
  "wrap64 x = (x + 2 ^ 63) mod 2 ^ 64 - 2 ^ 63"

subsection \<open>Numbers of either dtype\<close>

datatype num = I64 int | F64 f64

text \<open>The conversion to float64 that numpy applies to an int64 operand of a mixed operation.\<close>

fun to_f64 :: "num \<Rightarrow> f64" where
  "to_f64 (I64 x) = fl (of_int x)"
| "to_f64 (F64 v) = v"

section \<open>The forecast script as a function on tables\<close>

text \<open>A cell of an object column is text, a number or the missing value.\<close>

datatype cell = NaN | Num num | Str string

datatype column = Int64 "int list" | Float64 "f64 option list" | Object "cell list"

text \<open>A data frame is the list of its named columns, in the order of the file.\<close>

type_synonym dataframe = "(string \<times> column) list"

datatype error = FileNotFoundError string | KeyError string | TypeError | PermissionError string

subsection \<open>Frames: reading and assigning a column\<close>

fun col_len :: "column \<Rightarrow> nat" where
  "col_len (Int64 xs) = length xs"
| "col_len (Float64 xs) = length xs"
| "col_len (Object cs) = length cs"

text \<open>\<^verbatim>\<open>df[name]\<close> raises KeyError for a name that is not a column of the frame.\<close>

definition getitem :: "dataframe \<Rightarrow> string \<Rightarrow> error + column" where
  "getitem df name = (case map_of df name of None \<Rightarrow> Inl (KeyError name) | Some c \<Rightarrow> Inr c)"

text \<open>
  \<^verbatim>\<open>df[name] = values\<close> replaces the values of an existing column where it stands, and
  appends a new column after the last one otherwise.
\<close>

fun setitem :: "dataframe \<Rightarrow> string \<Rightarrow> column \<Rightarrow> dataframe" where
  "setitem [] name c = [(name, c)]"
| "setitem ((n, d) # df) name c =
     (if n = name then (name, c) # df else (n, d) # setitem df name c)"

subsection \<open>Series operations\<close>

text \<open>
  \<^verbatim>\<open>Series.notna()\<close>: the mask of the cells that are not missing. An int64 column has no
  missing cell.
\<close>

fun notna :: "column \<Rightarrow> bool list" where
  "notna (Int64 xs) = map (\<lambda>x. True) xs"
| "notna (Float64 xs) = map (\<lambda>x. x \<noteq> None) xs"
| "notna (Object cs) = map (\<lambda>c. c \<noteq> NaN) cs"

text \<open>The casts numpy applies when the two operands of an operation differ in dtype.\<close>

definition int64_as_float64 :: "int list \<Rightarrow> f64 option list" where
  "int64_as_float64 xs = map (\<lambda>x. Some (fl (of_int x))) xs"

fun as_object :: "column \<Rightarrow> cell list" where
  "as_object (Int64 xs) = map (\<lambda>x. Num (I64 x)) xs"
| "as_object (Float64 xs) = map (\<lambda>x. case x of None \<Rightarrow> NaN | Some v \<Rightarrow> Num (F64 v)) xs"
| "as_object (Object cs) = cs"

definition select :: "bool list \<Rightarrow> 'a list \<Rightarrow> 'a list \<Rightarrow> 'a list" where
  "select cond xs ys = map (\<lambda>(b, x, y). if b then x else y) (zip cond (zip xs ys))"

text \<open>
  \<^verbatim>\<open>np.where(cond, x, y)\<close> on two columns. The dtype of the result is the common dtype of
  \<open>x\<close> and \<open>y\<close>, whatever the mask: int64 for two int64 columns, float64 for two numeric
  columns of which one is float64, object otherwise.
\<close>

fun np_where :: "bool list \<Rightarrow> column \<Rightarrow> column \<Rightarrow> column" where
  "np_where cond (Int64 xs) (Int64 ys) = Int64 (select cond xs ys)"
| "np_where cond (Int64 xs) (Float64 ys) = Float64 (select cond (int64_as_float64 xs) ys)"
| "np_where cond (Float64 xs) (Int64 ys) = Float64 (select cond xs (int64_as_float64 ys))"
| "np_where cond (Float64 xs) (Float64 ys) = Float64 (select cond xs ys)"
| "np_where cond x y = Object (select cond (as_object x) (as_object y))"

text \<open>\<^verbatim>\<open>np.where(cond, s, t)\<close> with a string scalar \<open>s\<close>: the scalar is broadcast.\<close>

definition np_where_str :: "bool list \<Rightarrow> string \<Rightarrow> cell list \<Rightarrow> cell list" where
  "np_where_str cond s ys = select cond (replicate (length cond) (Str s)) ys"

definition np_where_str2 :: "bool list \<Rightarrow> string \<Rightarrow> string \<Rightarrow> cell list" where
  "np_where_str2 cond s t = np_where_str cond s (replicate (length cond) (Str t))"

text \<open>
  Arithmetic is defined on numeric columns, cell by cell. On an int64 column it is the
  wrapping arithmetic of int64, on a float64 column that of IEEE 754, where a missing operand
  gives a missing result. On an object column the arithmetic is Python's, cell by cell, and
  raises TypeError at a cell that holds text, which is what makes the column an object
  column when it is read. The model raises TypeError for every object column; what Python
  and pandas make of an object column whose text cells are all masked by \<^verbatim>\<open>np.where\<close> is
  not modelled, and the properties below are about numeric columns.

  \<^verbatim>\<open>a + column\<close> for a Python integer \<open>a\<close>:
\<close>

fun radd :: "int \<Rightarrow> column \<Rightarrow> error + column" where
  "radd a (Int64 xs) = Inr (Int64 (map (\<lambda>x. wrap64 (a + x)) xs))"
| "radd a (Float64 xs) = Inr (Float64 (map (\<lambda>v. Option.bind v (f64_add (Fin (of_int a)))) xs))"
| "radd a (Object cs) = Inl TypeError"

text \<open>\<^verbatim>\<open>column ** k\<close> for a Python integer \<open>k\<close> that is not negative:\<close>

fun pow :: "column \<Rightarrow> nat \<Rightarrow> error + column" where
  "pow (Int64 xs) k = Inr (Int64 (map (\<lambda>x. wrap64 (x ^ k)) xs))"
| "pow (Float64 xs) k = Inr (Float64 (map (map_option (\<lambda>v. f64_pow v k)) xs))"
| "pow (Object cs) k = Inl TypeError"

text \<open>
  The product of two columns: int64 for two int64 columns; otherwise an int64 operand is
  cast to float64 and the product is a float64 column.
\<close>

fun mul_cell :: "f64 option \<Rightarrow> f64 option \<Rightarrow> f64 option" where
  "mul_cell (Some x) (Some y) = f64_mul x y"
| "mul_cell _ _ = None"

fun mul :: "column \<Rightarrow> column \<Rightarrow> error + column" where
  "mul (Int64 xs) (Int64 ys) = Inr (Int64 (map (\<lambda>(x, y). wrap64 (x * y)) (zip xs ys)))"
| "mul (Int64 xs) (Float64 ys) =
     Inr (Float64 (map (\<lambda>(x, y). mul_cell x y) (zip (int64_as_float64 xs) ys)))"
| "mul (Float64 xs) (Int64 ys) =
     Inr (Float64 (map (\<lambda>(x, y). mul_cell x y) (zip xs (int64_as_float64 ys))))"
| "mul (Float64 xs) (Float64 ys) = Inr (Float64 (map (\<lambda>(x, y). mul_cell x y) (zip xs ys)))"
| "mul _ _ = Inl TypeError"

text \<open>
  \<^verbatim>\<open>Series.round(d)\<close> is numpy's rounding on a float64 column and leaves an int64 column
  as it is.
\<close>

fun round_col :: "column \<Rightarrow> nat \<Rightarrow> error + column" where
  "round_col (Int64 xs) d = Inr (Int64 xs)"
| "round_col (Float64 xs) d = Inr (Float64 (map (map_option (\<lambda>v. f64_round v d)) xs))"
| "round_col (Object cs) d = Inl TypeError"

text \<open>Sequencing of steps that may raise: the first error ends the run.\<close>

fun and_then :: "error + 'a \<Rightarrow> ('a \<Rightarrow> error + 'b) \<Rightarrow> error + 'b" where
  "and_then (Inl e) f = Inl e"
| "and_then (Inr x) f = f x"

subsection \<open>The script\<close>

definition input_file :: string where
  "input_file = ''C:/Users/cw/Downloads/Real Estate/clean_real_estate_with_cagr.csv''"

definition output_file :: string where
  "output_file = ''C:/Users/cw/Downloads/Real Estate/clean_real_estate_forecast.csv''"

definition price_col :: string where
  "price_col = ''Price_per_SQFT''"

definition city_cagr_col :: string where
  "city_cagr_col = ''City_Level_Annual_CAGR''"

definition loc_cagr_col :: string where
  "loc_cagr_col = ''Locality_Level_Annual_CAGR''"

text \<open>Lines 19 to 23: the locality rate where it is present, the city rate otherwise.\<close>

definition set_chosen_cagr :: "dataframe \<Rightarrow> error + dataframe" where
  "set_chosen_cagr df =
     and_then (getitem df loc_cagr_col) (\<lambda>loc_mask.
     and_then (getitem df loc_cagr_col) (\<lambda>loc.
     and_then (getitem df city_cagr_col) (\<lambda>city.
     Inr (setitem df ''chosen_cagr'' (np_where (notna loc_mask) loc city)))))"

text \<open>Lines 26 to 29: where the chosen rate comes from.\<close>

definition set_cagr_source :: "dataframe \<Rightarrow> error + dataframe" where
  "set_cagr_source df =
     and_then (getitem df loc_cagr_col) (\<lambda>loc.
     and_then (getitem df city_cagr_col) (\<lambda>city.
     Inr (setitem df ''cagr_source''
       (Object (np_where_str (notna loc) ''locality''
          (np_where_str2 (notna city) ''city'' ''none''))))))"

text \<open>
  Lines 32 to 34, for the horizon \<open>k\<close>:
  \<^verbatim>\<open>(df[price_col] * (1 + df["chosen_cagr"])**k).round(2)\<close>.
  Python evaluates the left operand of the product first.
\<close>

definition forecast :: "dataframe \<Rightarrow> nat \<Rightarrow> error + column" where
  "forecast df k =
     and_then (getitem df price_col) (\<lambda>price.
     and_then (getitem df ''chosen_cagr'') (\<lambda>chosen.
     and_then (radd 1 chosen) (\<lambda>growth.
     and_then (pow growth k) (\<lambda>factor.
     and_then (mul price factor) (\<lambda>product.
     round_col product 2)))))"

definition set_forecast :: "string \<Rightarrow> nat \<Rightarrow> dataframe \<Rightarrow> error + dataframe" where
  "set_forecast name k df = and_then (forecast df k) (\<lambda>c. Inr (setitem df name c))"

text \<open>Lines 19 to 34: the five assignments, in the order of the script.\<close>

definition forecaster :: "dataframe \<Rightarrow> error + dataframe" where
  "forecaster df =
     and_then (set_chosen_cagr df) (\<lambda>df1.
     and_then (set_cagr_source df1) (\<lambda>df2.
     and_then (set_forecast ''Price_per_SQFT_plus_1yr'' 1 df2) (\<lambda>df3.
     and_then (set_forecast ''Price_per_SQFT_plus_2yr'' 2 df3) (\<lambda>df4.
     set_forecast ''Price_per_SQFT_plus_3yr'' 3 df4))))"

subsection \<open>The run: one file read, one file written\<close>

text \<open>
  The file system holds a table for each path that names a readable CSV file, and says which
  paths can be written. The text of the files is not modelled.
\<close>

record filesystem =
  files :: "string \<rightharpoonup> dataframe"
  writable :: "string \<Rightarrow> bool"

definition read_csv :: "filesystem \<Rightarrow> string \<Rightarrow> error + dataframe" where
  "read_csv fs path =
     (case files fs path of None \<Rightarrow> Inl (FileNotFoundError path) | Some df \<Rightarrow> Inr df)"

definition to_csv :: "filesystem \<Rightarrow> string \<Rightarrow> dataframe \<Rightarrow> error + filesystem" where
  "to_csv fs path df =
     (if writable fs path then Inr (fs\<lparr>files := (files fs)(path \<mapsto> df)\<rparr>)
      else Inl (PermissionError path))"

text \<open>
  The whole script. The result is the error that ended the run, if any, and the file system
  the run leaves behind.
\<close>

definition run :: "filesystem \<Rightarrow> error option \<times> filesystem" where
  "run fs =
     (case and_then (read_csv fs input_file) forecaster of
        Inl e \<Rightarrow> (Some e, fs)
      | Inr df \<Rightarrow>
          (case to_csv fs output_file df of
             Inl e \<Rightarrow> (Some e, fs)
           | Inr fs' \<Rightarrow> (None, fs')))"

section \<open>Vocabulary of the properties\<close>

subsection \<open>Rows of a table\<close>

text \<open>
  A cell of a numeric column, as the properties speak of it: the missing value \<open>None\<close>, or a
  number together with the dtype of its column.
\<close>

fun numeric :: "column \<Rightarrow> bool" where
  "numeric (Int64 xs) = True"
| "numeric (Float64 xs) = True"
| "numeric (Object cs) = False"

fun cells :: "column \<Rightarrow> num option list" where
  "cells (Int64 xs) = map (\<lambda>x. Some (I64 x)) xs"
| "cells (Float64 xs) = map (map_option F64) xs"
| "cells (Object cs) = []"

text \<open>
  The record of the specification: the three input cells of a row and the five cells the
  script derives for it. \<open>row_at df i\<close> reads row \<open>i\<close> from the columns of a frame; it is
  defined when the eight columns exist, the source is an object column, the seven others are
  numeric, and all reach row \<open>i\<close>.
\<close>

record row =
  price :: "num option"
  locality_cagr :: "num option"
  city_cagr :: "num option"
  chosen_cagr :: "num option"
  cagr_source :: cell
  plus_1yr :: "num option"
  plus_2yr :: "num option"
  plus_3yr :: "num option"

definition num_cell :: "dataframe \<Rightarrow> string \<Rightarrow> nat \<Rightarrow> num option option" where
  "num_cell df name i =
     (case getitem df name of
        Inr c \<Rightarrow> if numeric c \<and> i < col_len c then Some (cells c ! i) else None
      | Inl e \<Rightarrow> None)"

definition object_cell :: "dataframe \<Rightarrow> string \<Rightarrow> nat \<Rightarrow> cell option" where
  "object_cell df name i =
     (case getitem df name of
        Inr (Object cs) \<Rightarrow> if i < length cs then Some (cs ! i) else None
      | _ \<Rightarrow> None)"

definition row_at :: "dataframe \<Rightarrow> nat \<Rightarrow> row option" where
  "row_at df i =
     Option.bind (num_cell df price_col i) (\<lambda>p.
     Option.bind (num_cell df loc_cagr_col i) (\<lambda>l.
     Option.bind (num_cell df city_cagr_col i) (\<lambda>c.
     Option.bind (num_cell df ''chosen_cagr'' i) (\<lambda>ch.
     Option.bind (object_cell df ''cagr_source'' i) (\<lambda>src.
     Option.bind (num_cell df ''Price_per_SQFT_plus_1yr'' i) (\<lambda>f1.
     Option.bind (num_cell df ''Price_per_SQFT_plus_2yr'' i) (\<lambda>f2.
     Option.bind (num_cell df ''Price_per_SQFT_plus_3yr'' i) (\<lambda>f3.
     Some \<lparr>price = p, locality_cagr = l, city_cagr = c, chosen_cagr = ch, cagr_source = src,
            plus_1yr = f1, plus_2yr = f2, plus_3yr = f3\<rparr>))))))))"

text \<open>A frame of \<open>n\<close> rows: each of its columns has \<open>n\<close> cells.\<close>

definition has_rows :: "nat \<Rightarrow> dataframe \<Rightarrow> bool" where
  "has_rows n df = list_all (\<lambda>(name, c). col_len c = n) df"

text \<open>The names of the five columns the script assigns, in the order of the assignments.\<close>

definition new_columns :: "string list" where
  "new_columns = [''chosen_cagr'', ''cagr_source'', ''Price_per_SQFT_plus_1yr'',
     ''Price_per_SQFT_plus_2yr'', ''Price_per_SQFT_plus_3yr'']"

text \<open>
  A frame restricted to the columns of the given names, as the specification's idempotence
  property words it (``its own output restricted to original columns'').
\<close>

definition restrict_cols :: "string list \<Rightarrow> dataframe \<Rightarrow> dataframe" where
  "restrict_cols names df = filter (\<lambda>(name, c). name \<in> set names) df"

subsection \<open>The operations of the script on one cell\<close>

text \<open>
  What the operations on columns do to a single cell. The dtype of a result follows the
  dtypes of the operands: int64 when all are int64, float64 otherwise.
\<close>

fun is_int64 :: "num option \<Rightarrow> bool" where
  "is_int64 (Some (I64 x)) = True"
| "is_int64 _ = False"

definition as_float64 :: "num option \<Rightarrow> num option" where
  "as_float64 v = map_option (\<lambda>x. F64 (to_f64 x)) v"

text \<open>A cell of one of two columns, in the common dtype of the two.\<close>

definition promote :: "num option \<Rightarrow> num option \<Rightarrow> num option \<Rightarrow> num option" where
  "promote a b v = (if is_int64 a \<and> is_int64 b then v else as_float64 v)"

fun cell_radd :: "int \<Rightarrow> num option \<Rightarrow> num option" where
  "cell_radd a None = None"
| "cell_radd a (Some (I64 x)) = Some (I64 (wrap64 (a + x)))"
| "cell_radd a (Some (F64 v)) = map_option F64 (f64_add (Fin (of_int a)) v)"

fun cell_pow :: "num option \<Rightarrow> nat \<Rightarrow> num option" where
  "cell_pow None k = None"
| "cell_pow (Some (I64 x)) k = Some (I64 (wrap64 (x ^ k)))"
| "cell_pow (Some (F64 v)) k = Some (F64 (f64_pow v k))"

fun cell_mul :: "num option \<Rightarrow> num option \<Rightarrow> num option" where
  "cell_mul (Some (I64 x)) (Some (I64 y)) = Some (I64 (wrap64 (x * y)))"
| "cell_mul (Some x) (Some y) = map_option F64 (f64_mul (to_f64 x) (to_f64 y))"
| "cell_mul _ _ = None"

fun cell_round :: "num option \<Rightarrow> nat \<Rightarrow> num option" where
  "cell_round None d = None"
| "cell_round (Some (I64 x)) d = Some (I64 x)"
| "cell_round (Some (F64 v)) d = Some (F64 (f64_round v d))"

text \<open>
  The one product of two numbers that is NaN: zero times an infinity, in float64. (The
  product of two int64 cells is an int64.)
\<close>

fun f64_infinite :: "f64 \<Rightarrow> bool" where
  "f64_infinite (Fin a) = False"
| "f64_infinite v = True"

fun zero_times_infinity :: "num option \<Rightarrow> num option \<Rightarrow> bool" where
  "zero_times_infinity (Some (I64 x)) (Some (I64 y)) = False"
| "zero_times_infinity (Some x) (Some y) =
     (to_f64 x = Fin 0 \<and> f64_infinite (to_f64 y) \<or> f64_infinite (to_f64 x) \<and> to_f64 y = Fin 0)"
| "zero_times_infinity _ _ = False"

text \<open>The cell \<^verbatim>\<open>(price * (1 + rate) ** k).round(2)\<close>.\<close>

definition forecast_cell :: "nat \<Rightarrow> num option \<Rightarrow> num option \<Rightarrow> num option" where
  "forecast_cell k p c = cell_round (cell_mul p (cell_pow (cell_radd 1 c) k)) 2"

text \<open>
  A number a cell of a frame can hold: an int64 in its range, a float64 that is an infinity
  or a binary64 number.
\<close>

fun valid_num :: "num \<Rightarrow> bool" where
  "valid_num (I64 x) = (wrap64 x = x)"
| "valid_num (F64 (Fin a)) = (fl a = Fin a)"
| "valid_num (F64 v) = True"

subsection \<open>The derived columns in closed form\<close>

text \<open>
  What the five assignments store, as functions of the three columns they read. The lemma
  \<open>forecaster_Inr\<close> below relates these closed forms to the script.
\<close>

definition chosen_of :: "column \<Rightarrow> column \<Rightarrow> column" where
  "chosen_of loc city = np_where (notna loc) loc city"

definition source_of :: "column \<Rightarrow> column \<Rightarrow> cell list" where
  "source_of loc city =
     np_where_str (notna loc) ''locality'' (np_where_str2 (notna city) ''city'' ''none'')"

definition forecast_of :: "nat \<Rightarrow> column \<Rightarrow> column \<Rightarrow> error + column" where
  "forecast_of k prices rates =
     and_then (radd 1 rates) (\<lambda>growth.
     and_then (pow growth k) (\<lambda>factor.
     and_then (mul prices factor) (\<lambda>product.
     round_col product 2)))"

text \<open>The forecast cell for a price and a rate that are both float64 cells.\<close>

definition f64_forecast :: "nat \<Rightarrow> f64 option \<Rightarrow> f64 option \<Rightarrow> f64 option" where
  "f64_forecast k p c =
     map_option (\<lambda>v. f64_round v 2)
       (mul_cell p (map_option (\<lambda>v. f64_pow v k) (Option.bind c (f64_add (Fin 1)))))"

definition new_frame ::
  "dataframe \<Rightarrow> column \<Rightarrow> cell list \<Rightarrow> column \<Rightarrow> column \<Rightarrow> column \<Rightarrow> dataframe" where
  "new_frame df ch src f1 f2 f3 =
     setitem (setitem (setitem (setitem (setitem df
       ''chosen_cagr'' ch)
       ''cagr_source'' (Object src))
       ''Price_per_SQFT_plus_1yr'' f1)
       ''Price_per_SQFT_plus_2yr'' f2)
       ''Price_per_SQFT_plus_3yr'' f3"

subsection \<open>Sample tables\<close>

text \<open>
  A table of eight rows: the three examples of the specification; a row with a zero rate and
  a price that is a tie of the rounding; a row without a price; a row whose third forecast
  differs by a cent from the value of the formula over the real numbers; and two rows with a
  zero rate whose prices \<^verbatim>\<open>2.675\<close> and \<^verbatim>\<open>0.575\<close> are not binary64 numbers.
\<close>

definition sample_df :: dataframe where
  "sample_df =
     [(''City'', Object
         [Str ''Pune'', Str ''Delhi'', Str ''Goa'', Str ''Agra'', NaN, Str ''Surat'',
          Str ''Kochi'', Str ''Patna'']),
      (''Price_per_SQFT'', Float64
         [Some (dec 100 0), Some (dec 200 0), Some (dec 50 0), Some (dec 75125 3), None,
          Some (dec 1000 0), Some (dec 2675 3), Some (dec 575 3)]),
      (''City_Level_Annual_CAGR'', Float64
         [Some (dec 5 2), Some (dec 4 2), None, Some (dec 5 2), None, Some (dec 5 2), None,
          None]),
      (''Locality_Level_Annual_CAGR'', Float64
         [Some (dec 10 2), None, None, Some (dec 0 0), Some (dec 3 2), None, Some (dec 0 0),
          Some (dec 0 0)])]"

definition sample_new :: dataframe where
  "sample_new =
     [(''chosen_cagr'', Float64
         [Some (dec 10 2), Some (dec 4 2), None, Some (dec 0 0), Some (dec 3 2),
          Some (dec 5 2), Some (dec 0 0), Some (dec 0 0)]),
      (''cagr_source'', Object
         [Str ''locality'', Str ''city'', Str ''none'', Str ''locality'', Str ''locality'',
          Str ''city'', Str ''locality'', Str ''locality'']),
      (''Price_per_SQFT_plus_1yr'', Float64
         [Some (dec 1100 1), Some (dec 2080 1), None, Some (dec 7512 2), None,
          Some (dec 10500 1), Some (dec 268 2), Some (dec 57 2)]),
      (''Price_per_SQFT_plus_2yr'', Float64
         [Some (dec 1210 1), Some (dec 21632 2), None, Some (dec 7512 2), None,
          Some (dec 11025 1), Some (dec 268 2), Some (dec 57 2)]),
      (''Price_per_SQFT_plus_3yr'', Float64
         [Some (dec 1331 1), Some (dec 22497 2), None, Some (dec 7512 2), None,
          Some (dec 115763 2), Some (dec 268 2), Some (dec 57 2)])]"

definition sample_out :: dataframe where
  "sample_out = sample_df @ sample_new"

text \<open>A table that already has a column named \<^verbatim>\<open>cagr_source\<close>.\<close>

definition tagged_df :: dataframe where
  "tagged_df =
     [(''cagr_source'', Object [Str ''survey'']),
      (''Price_per_SQFT'', Float64 [Some (dec 100 0)]),
      (''City_Level_Annual_CAGR'', Float64 [Some (dec 5 2)]),
      (''Locality_Level_Annual_CAGR'', Float64 [Some (dec 10 2)])]"

text \<open>What the script makes of it: the column is overwritten where it stands.\<close>

definition tagged_out :: dataframe where
  "tagged_out =
     [(''cagr_source'', Object [Str ''locality'']),
      (''Price_per_SQFT'', Float64 [Some (dec 100 0)]),
      (''City_Level_Annual_CAGR'', Float64 [Some (dec 5 2)]),
      (''Locality_Level_Annual_CAGR'', Float64 [Some (dec 10 2)]),
      (''chosen_cagr'', Float64 [Some (dec 10 2)]),
      (''Price_per_SQFT_plus_1yr'', Float64 [Some (dec 1100 1)]),
      (''Price_per_SQFT_plus_2yr'', Float64 [Some (dec 1210 1)]),
      (''Price_per_SQFT_plus_3yr'', Float64 [Some (dec 1331 1)])]"

text \<open>A table without the city rate, and a file system that holds it as the input file.\<close>

definition no_city_df :: dataframe where
  "no_city_df =
     [(''Price_per_SQFT'', Float64 [Some (dec 100 0)]),
      (''Locality_Level_Annual_CAGR'', Float64 [Some (dec 10 2)])]"

definition no_city_fs :: filesystem where
  "no_city_fs = \<lparr>files = [input_file \<mapsto> no_city_df], writable = (\<lambda>path. True)\<rparr>"

text \<open>
  Two tables of one row with the price \<open>4 * 10 ^ 18\<close> and both rates \<open>2\<close>. In the first the
  file writes the three numbers as integers, and pandas reads three int64 columns; in the
  second it writes them with a decimal point, and pandas reads three float64 columns.
\<close>

definition int_df :: dataframe where
  "int_df =
     [(''Price_per_SQFT'', Int64 [4000000000000000000]),
      (''City_Level_Annual_CAGR'', Int64 [2]),
      (''Locality_Level_Annual_CAGR'', Int64 [2])]"

definition int_out :: dataframe where
  "int_out = int_df @
     [(''chosen_cagr'', Int64 [2]),
      (''cagr_source'', Object [Str ''locality'']),
      (''Price_per_SQFT_plus_1yr'', Int64 [- 6446744073709551616]),
      (''Price_per_SQFT_plus_2yr'', Int64 [- 893488147419103232]),
      (''Price_per_SQFT_plus_3yr'', Int64 [- 2680464442257309696])]"

definition float_df :: dataframe where
  "float_df =
     [(''Price_per_SQFT'', Float64 [Some (dec 4000000000000000000 0)]),
      (''City_Level_Annual_CAGR'', Float64 [Some (dec 2 0)]),
      (''Locality_Level_Annual_CAGR'', Float64 [Some (dec 2 0)])]"

definition float_out :: dataframe where
  "float_out = float_df @
     [(''chosen_cagr'', Float64 [Some (dec 2 0)]),
      (''cagr_source'', Object [Str ''locality'']),
      (''Price_per_SQFT_plus_1yr'', Float64 [Some (dec 12000000000000000000 0)]),
      (''Price_per_SQFT_plus_2yr'', Float64 [Some (dec 36000000000000000000 0)]),
      (''Price_per_SQFT_plus_3yr'', Float64 [Some (dec 108000000000000000000 0)])]"

text \<open>
  A table of two rows in which the prices and the locality rates are written as integers and
  the city rates are not: pandas reads two int64 columns and a float64 column.
\<close>

definition mixed_df :: dataframe where
  "mixed_df =
     [(''Price_per_SQFT'', Int64 [5000, 200]),
      (''City_Level_Annual_CAGR'', Float64 [Some (dec 5 2), None]),
      (''Locality_Level_Annual_CAGR'', Int64 [0, 1])]"

definition mixed_out :: dataframe where
  "mixed_out = mixed_df @
     [(''chosen_cagr'', Float64 [Some (dec 0 1), Some (dec 10 1)]),
      (''cagr_source'', Object [Str ''locality'', Str ''locality'']),
      (''Price_per_SQFT_plus_1yr'', Float64 [Some (dec 50000 1), Some (dec 4000 1)]),
      (''Price_per_SQFT_plus_2yr'', Float64 [Some (dec 50000 1), Some (dec 8000 1)]),
      (''Price_per_SQFT_plus_3yr'', Float64 [Some (dec 50000 1), Some (dec 16000 1)])]"

text \<open>
  A table of one row with the price \<^verbatim>\<open>1.0\<close> and both rates \<open>2097151\<close>, written as integers:
  pandas reads a float64 column and two int64 columns. The growth factor for three years,
  \<open>2097152 ^ 3 = 2 ^ 63\<close>, is beyond the largest int64.
\<close>

definition wrap_df :: dataframe where
  "wrap_df =
     [(''Price_per_SQFT'', Float64 [Some (dec 10 1)]),
      (''City_Level_Annual_CAGR'', Int64 [2097151]),
      (''Locality_Level_Annual_CAGR'', Int64 [2097151])]"


text \<open>
  A table of one row with the price \<^verbatim>\<open>0.0\<close> and the locality rate \<^verbatim>\<open>1e200\<close>, whose square
  is beyond the largest float64.
\<close>

definition overflow_df :: dataframe where
  "overflow_df =
     [(''Price_per_SQFT'', Float64 [Some (dec 0 0)]),
      (''City_Level_Annual_CAGR'', Float64 [None]),
      (''Locality_Level_Annual_CAGR'', Float64 [Some (sci 1 200)])]"

definition overflow_out :: dataframe where
  "overflow_out = overflow_df @
     [(''chosen_cagr'', Float64 [Some (sci 1 200)]),
      (''cagr_source'', Object [Str ''locality'']),
      (''Price_per_SQFT_plus_1yr'', Float64 [Some (dec 0 1)]),
      (''Price_per_SQFT_plus_2yr'', Float64 [None]),
      (''Price_per_SQFT_plus_3yr'', Float64 [None])]"

section \<open>Facts about the model\<close>

subsection \<open>rint\<close>

lemma rint_of_int [simp]: "rint (of_int n) = of_int n"
  by (simp add: rint_def)

lemma rint_mono: "x \<le> y \<Longrightarrow> rint x \<le> rint y"
proof -
  assume xy: "x \<le> y"
  have fl: "\<lfloor>x\<rfloor> \<le> \<lfloor>y\<rfloor>" using xy by (rule floor_mono)
  show ?thesis
  proof (cases "\<lfloor>x\<rfloor> = \<lfloor>y\<rfloor>")
    case True
    then show ?thesis using xy by (auto simp: rint_def Let_def)
  next
    case False
    with fl have "\<lfloor>x\<rfloor> + 1 \<le> \<lfloor>y\<rfloor>" by simp
    moreover have "rint x \<le> of_int (\<lfloor>x\<rfloor> + 1)" by (simp add: rint_def Let_def)
    moreover have "of_int \<lfloor>y\<rfloor> \<le> rint y" by (simp add: rint_def Let_def)
    ultimately show ?thesis
      by (metis (mono_tags) of_int_le_iff order_trans)
  qed
qed

lemma rint_le: "x \<le> of_int n \<Longrightarrow> rint x \<le> of_int n"
  using rint_mono [of x "of_int n"] by simp

lemma rint_ge: "of_int n \<le> x \<Longrightarrow> of_int n \<le> rint x"
  using rint_mono [of "of_int n" x] by simp


subsection \<open>binade\<close>

lemma binade_fin [simp]: "finite {e::int. - 1022 \<le> e \<and> e \<le> 1023 \<and> P e}"
  by (rule finite_subset [of _ "{- 1022 .. 1023}"]) auto

lemma binade_bounds: "- 1022 \<le> binade x" "binade x \<le> 1023"
proof -
  let ?S = "insert (- 1022) {e \<in> {- 1022 .. 1023}. 2 powi e \<le> \<bar>x\<bar>}"
  have "Max ?S \<in> ?S" by (rule Max_in) auto
  then show "- 1022 \<le> binade x" "binade x \<le> 1023"
    by (auto simp: binade_def)
qed

lemma binade_eqI:
  assumes "- 1022 \<le> e" "e \<le> 1023" "2 powi e \<le> \<bar>x\<bar>" "\<bar>x\<bar> < 2 powi (e + 1)"
  shows "binade x = e"
  unfolding binade_def
proof (rule Max_eqI)
  show "finite (insert (- 1022) {e \<in> {- 1022 .. 1023}. 2 powi e \<le> \<bar>x\<bar>})" by simp
  show "e \<in> insert (- 1022) {e \<in> {- 1022 .. 1023}. 2 powi e \<le> \<bar>x\<bar>}"
    using assms by simp
  fix y assume "y \<in> insert (- 1022) {e \<in> {- 1022 .. 1023}. 2 powi e \<le> \<bar>x\<bar>}"
  then consider "y = - 1022" | "2 powi y \<le> \<bar>x\<bar>" by auto
  then show "y \<le> e"
  proof cases
    case 1 then show ?thesis using assms(1) by simp
  next
    case 2
    with assms(4) have "(2::real) powi y < 2 powi (e + 1)" by simp
    then have "y < e + 1"
      by (metis not_less power_int_increasing one_le_numeral)
    then show ?thesis by simp
  qed
qed

lemma binade_subnormal: "\<bar>x\<bar> < 2 powi (- 1022) \<Longrightarrow> binade x = - 1022"
  unfolding binade_def
proof (rule Max_eqI)
  assume a: "\<bar>x\<bar> < 2 powi (- 1022)"
  show "finite (insert (- 1022) {e \<in> {- 1022 .. 1023}. 2 powi e \<le> \<bar>x\<bar>})" by simp
  show "- 1022 \<in> insert (- 1022) {e \<in> {- 1022 .. 1023}. 2 powi e \<le> \<bar>x\<bar>}" by simp
  fix y assume "y \<in> insert (- 1022) {e \<in> {- 1022 .. 1023}. 2 powi e \<le> \<bar>x\<bar>}"
  then consider "y = - 1022" | "- 1022 \<le> y" "2 powi y \<le> \<bar>x\<bar>" by auto
  then show "y \<le> - 1022"
  proof cases
    case 1 then show ?thesis by simp
  next
    case 2
    have "(2::real) powi (- 1022) \<le> 2 powi y"
      using 2(1) by (intro power_int_increasing) simp_all
    with a 2(2) show ?thesis by simp
  qed
qed

lemma binade_lower: "2 powi (- 1022) \<le> \<bar>x\<bar> \<Longrightarrow> 2 powi (binade x) \<le> \<bar>x\<bar>"
proof -
  assume a: "2 powi (- 1022) \<le> \<bar>x\<bar>"
  let ?S = "insert (- 1022) {e \<in> {- 1022 .. 1023}. 2 powi e \<le> \<bar>x\<bar>}"
  have "Max ?S \<in> ?S" by (rule Max_in) auto
  then show ?thesis using a by (auto simp: binade_def)
qed

lemma binade_upper: "binade x < 1023 \<Longrightarrow> \<bar>x\<bar> < 2 powi (binade x + 1)"
proof (rule ccontr)
  assume b: "binade x < 1023" and "\<not> \<bar>x\<bar> < 2 powi (binade x + 1)"
  then have "2 powi (binade x + 1) \<le> \<bar>x\<bar>" by simp
  then have "binade x + 1 \<in> insert (- 1022) {e \<in> {- 1022 .. 1023}. 2 powi e \<le> \<bar>x\<bar>}"
    using b binade_bounds(1) [of x] by simp
  then have "binade x + 1 \<le> binade x"
    unfolding binade_def by (intro Max_ge) simp_all
  then show False by simp
qed


lemma binade_minus [simp]: "binade (- x) = binade x"
  by (simp add: binade_def)

subsection \<open>nearest\<close>



lemma nearest_exact:
  assumes "\<bar>m\<bar> < 2 ^ 53" and "- 1074 \<le> e"
  shows "nearest (of_int m * 2 powi e) = of_int m * 2 powi e"
proof -
  define x :: real where "x = of_int m * 2 powi e"
  define b where "b = binade x"
  have le: "b - 52 \<le> e"
  proof (cases "\<bar>x\<bar> < 2 powi (- 1022)")
    case True
    then have "b = - 1022" by (simp add: b_def binade_subnormal)
    with assms(2) show ?thesis by simp
  next
    case False
    then have "2 powi b \<le> \<bar>x\<bar>" unfolding b_def by (intro binade_lower) simp
    also have "\<bar>x\<bar> = of_int \<bar>m\<bar> * 2 powi e" by (simp add: x_def abs_mult)
    also have "\<dots> < 2 ^ 53 * 2 powi e"
    proof -
      have "(of_int \<bar>m\<bar> :: real) < of_int (2 ^ 53)" using assms(1) by (simp only: of_int_less_iff)
      then show ?thesis by simp
    qed
    also have "\<dots> = 2 powi (53 + e)" by (simp add: power_int_add)
    finally have "b < 53 + e"
      by (metis not_less power_int_increasing one_le_numeral)
    then show ?thesis by simp
  qed
  define k where "k = nat (e - (b - 52))"
  have e: "e = (b - 52) + int k" using le by (simp add: k_def)
  have q: "x / 2 powi (b - 52) = of_int (m * 2 ^ k)"
    by (simp add: x_def e power_int_add power_int_of_nat)
  have "rint (x / 2 powi (b - 52)) * 2 powi (b - 52) = x"
    unfolding q rint_of_int by (simp add: x_def e power_int_add power_int_of_nat)
  then show ?thesis
    by (simp add: nearest_def Let_def x_def [symmetric] b_def [symmetric])
qed



subsection \<open>fl\<close>


lemma fl_exact:
  assumes "\<bar>m\<bar> < 2 ^ 53" and "- 1074 \<le> e" and "e \<le> 971"
  shows "fl (of_int m * 2 powi e) = Fin (of_int m * 2 powi e)"
proof -
  have "\<bar>of_int m * 2 powi e\<bar> = of_int \<bar>m\<bar> * (2::real) powi e" by (simp add: abs_mult)
  also have "\<dots> \<le> of_int (2 ^ 53 - 1) * 2 powi e"
  proof -
    have "\<bar>m\<bar> \<le> 2 ^ 53 - 1" using assms(1) by simp
    then have "(of_int \<bar>m\<bar> :: real) \<le> of_int (2 ^ 53 - 1)" by (simp only: of_int_le_iff)
    then show ?thesis by (intro mult_right_mono) simp_all
  qed
  also have "\<dots> \<le> of_int (2 ^ 53 - 1) * 2 powi 971"
    using assms(3) by (intro mult_left_mono power_int_increasing) simp_all
  also have "\<dots> = max_f64" by (simp add: max_f64_def)
  finally have "\<bar>of_int m * 2 powi e\<bar> \<le> max_f64" .
  then show ?thesis
    using nearest_exact [OF assms(1,2)] by (auto simp: fl_def Let_def)
qed

lemma fl_normal:
  assumes "binade x = e" and "e \<le> 1022"
  shows "fl x = Fin (rint (x / 2 powi (e - 52)) * 2 powi (e - 52))"
proof -
  define u where "u = (2::real) powi (e - 52)"
  have u: "0 < u" by (simp add: u_def)
  have "binade x < 1023" using assms by simp
  then have "\<bar>x\<bar> < 2 powi (binade x + 1)" by (rule binade_upper)
  also have "\<dots> = 2 ^ 53 * u" by (simp add: u_def assms(1) power_int_diff power_int_add)
  finally have a: "\<bar>x\<bar> < 2 ^ 53 * u" .
  then have "x / u \<le> of_int (2 ^ 53)" "of_int (- (2 ^ 53)) \<le> x / u"
    using u by (simp_all add: field_simps abs_less_iff)
  then have "rint (x / u) \<le> of_int (2 ^ 53)" "of_int (- (2 ^ 53)) \<le> rint (x / u)"
    by (simp_all only: rint_le rint_ge)
  then have "\<bar>rint (x / u) * u\<bar> \<le> 2 ^ 53 * u"
    using u by (simp add: abs_le_iff abs_mult)
  also have "\<dots> = 2 powi (e + 1)" by (simp add: u_def power_int_diff power_int_add)
  also have "\<dots> \<le> 2 powi 1023" using assms(2) by (intro power_int_increasing) simp_all
  also have "\<dots> \<le> max_f64" by (simp add: max_f64_def)
  finally have "\<bar>nearest x\<bar> \<le> max_f64" by (simp add: nearest_def Let_def assms(1) u_def)
  moreover have "nearest x = rint (x / 2 powi (e - 52)) * 2 powi (e - 52)"
    by (simp add: nearest_def Let_def assms(1))
  ultimately show ?thesis by (auto simp: fl_def Let_def)
qed

lemma fl_eval:
  assumes "- 1022 \<le> e" "e \<le> 1022" "2 powi e \<le> \<bar>x\<bar>" "\<bar>x\<bar> < 2 powi (e + 1)"
  shows "fl x = Fin (rint (x / 2 powi (e - 52)) * 2 powi (e - 52))"
  using fl_normal [OF binade_eqI [OF assms(1) _ assms(3,4)] assms(2)] assms(2) by simp

lemma fl_huge:
  assumes "2 ^ 1024 \<le> x"
  shows "fl x = PInf"
proof -
  have x: "0 \<le> x" using assms by (meson order_trans zero_le_numeral zero_le_power)
  have "1023 \<in> insert (- 1022) {e \<in> {- 1022 .. 1023}. 2 powi e \<le> \<bar>x\<bar>}"
  proof -
    have "(2::real) powi 1023 \<le> 2 ^ 1024" by simp
    with assms x show ?thesis by simp
  qed
  then have "1023 \<le> binade x" unfolding binade_def by (intro Max_ge) simp_all
  with binade_bounds(2) [of x] have b: "binade x = 1023" by simp
  have "of_int (2 ^ 53) \<le> x / 2 ^ 971"
  proof -
    have "(2::real) ^ 53 * 2 ^ 971 = 2 ^ 1024" by (simp flip: power_add)
    with assms show ?thesis by (simp add: field_simps)
  qed
  then have "of_int (2 ^ 53) \<le> rint (x / 2 ^ 971)" by (rule rint_ge)
  then have "2 ^ 53 * 2 ^ 971 \<le> nearest x"
    by (simp add: nearest_def Let_def b)
  moreover have "max_f64 < 2 ^ 53 * 2 ^ 971" by (simp add: max_f64_def)
  ultimately show ?thesis by (simp add: fl_def Let_def)
qed

lemma fl_0 [simp]: "fl 0 = Fin 0"
  using fl_exact [of 0 0] by simp

lemma fl_1 [simp]: "fl 1 = Fin 1"
  using fl_exact [of 1 0] by simp

lemma fl_numeral: "(numeral n :: int) < 2 ^ 53 \<Longrightarrow> fl (numeral n) = Fin (numeral n)"
  using fl_exact [of "numeral n" 0] by simp

lemma rint_numeral: "rint (numeral n) = numeral n"
  using rint_of_int [of "numeral n"] by simp


lemma rint_int: "\<exists>m. rint x = of_int m"
  by (simp add: rint_def Let_def)

text \<open>A finite result of \<open>fl\<close> is a binary64 number: rounding it again changes nothing.\<close>

lemma fl_fl:
  assumes "fl x = Fin q"
  shows "fl q = Fin q"
proof -
  define b where "b = binade x"
  define u where "u = (2::real) powi (b - 52)"
  obtain m where m: "rint (x / u) = of_int m" using rint_int by blast
  have q: "q = of_int m * u" and le: "\<bar>q\<bar> \<le> max_f64"
    using assms m by (auto simp: fl_def nearest_def Let_def b_def u_def split: if_splits)
  have u: "0 < u" by (simp add: u_def)
  have b: "- 1022 \<le> b" "b \<le> 1023" by (simp_all add: b_def binade_bounds)
  have m53: "\<bar>m\<bar> \<le> 2 ^ 53"
  proof (rule ccontr)
    assume "\<not> \<bar>m\<bar> \<le> 2 ^ 53"
    then have "2 ^ 53 + 1 \<le> \<bar>m\<bar>" by simp
    then have "(of_int (2 ^ 53 + 1) :: real) \<le> of_int \<bar>m\<bar>" by (simp only: of_int_le_iff)
    then have big: "(2 ^ 53 + 1) * u \<le> \<bar>q\<bar>" using u by (simp add: q abs_mult)
    show False
    proof (cases "b < 1023")
      case True
      then have "\<bar>x\<bar> < 2 powi (b + 1)" unfolding b_def by (rule binade_upper)
      also have "\<dots> = 2 ^ 53 * u" by (simp add: u_def power_int_diff power_int_add)
      finally have "x / u \<le> of_int (2 ^ 53)" "of_int (- (2 ^ 53)) \<le> x / u"
        using u by (simp_all add: field_simps abs_less_iff)
      then have "rint (x / u) \<le> of_int (2 ^ 53)" "of_int (- (2 ^ 53)) \<le> rint (x / u)"
        by (simp_all only: rint_le rint_ge)
      then have "m \<le> 2 ^ 53" "- (2 ^ 53) \<le> m" unfolding m by (simp_all only: of_int_le_iff)
      then have "\<bar>m\<bar> \<le> 2 ^ 53" by simp
      with \<open>\<not> \<bar>m\<bar> \<le> 2 ^ 53\<close> show False by simp
    next
      case False
      with b have "b = 1023" by simp
      then have "u = 2 ^ 971" by (simp add: u_def)
      with big le show False by (simp add: max_f64_def)
    qed
  qed
  show ?thesis
  proof (cases "\<bar>m\<bar> < 2 ^ 53")
    case True
    have "fl (of_int m * 2 powi (b - 52)) = Fin (of_int m * 2 powi (b - 52))"
      using True b by (intro fl_exact) simp_all
    then show ?thesis by (simp add: q u_def)
  next
    case False
    with m53 have am: "\<bar>m\<bar> = 2 ^ 53" by simp
    have "b \<noteq> 1023"
    proof
      assume "b = 1023"
      then have "u = 2 ^ 971" by (simp add: u_def)
      moreover have "\<bar>q\<bar> = 2 ^ 53 * u"
      proof -
        have "\<bar>q\<bar> = of_int \<bar>m\<bar> * u" using u by (simp add: q abs_mult)
        then show ?thesis by (simp add: am)
      qed
      ultimately show False using le by (simp add: max_f64_def)
    qed
    with b have b': "b \<le> 1022" by simp
    obtain m' :: int where m': "\<bar>m'\<bar> = 2 ^ 52" "m = 2 * m'"
    proof (cases "0 \<le> m")
      case True
      with am have "m = 2 * 2 ^ 52" by simp
      then show ?thesis using that [of "2 ^ 52"] by simp
    next
      case False
      with am have "m = 2 * (- (2 ^ 52))" by simp
      then show ?thesis using that [of "- (2 ^ 52)"] by simp
    qed
    have "q = of_int m' * 2 powi (b - 51)"
      by (simp add: q u_def m'(2) power_int_diff)
    moreover have "fl (of_int m' * 2 powi (b - 51)) = Fin (of_int m' * 2 powi (b - 51))"
      using m'(1) b b' by (intro fl_exact) simp_all
    ultimately show ?thesis by simp
  qed
qed

subsection \<open>The order of float64\<close>

lemma f64_le_refl [simp]: "f64_le x x"
  by (cases x) simp_all

lemma f64_le_trans: "f64_le x y \<Longrightarrow> f64_le y z \<Longrightarrow> f64_le x z"
  by (cases x; cases y; cases z) simp_all

lemma f64_le_PInf [simp]: "f64_le x PInf"
  by (cases x) simp_all

lemma f64_le_NInf [simp]: "f64_le NInf x"
  by simp


subsection \<open>Frames\<close>

lemma map_of_setitem: "map_of (setitem df n c) = (map_of df)(n \<mapsto> c)"
  by (induction df n c rule: setitem.induct) (auto simp: fun_eq_iff)

lemma getitem_setitem: "getitem (setitem df n c) m = (if m = n then Inr c else getitem df m)"
  by (simp add: getitem_def map_of_setitem)

lemma setitem_fresh: "n \<notin> fst ` set df \<Longrightarrow> setitem df n c = df @ [(n, c)]"
  by (induction df n c rule: setitem.induct) auto

lemma setitem_same: "getitem df name = Inr c \<Longrightarrow> setitem df name c = df"
  by (induction df name c rule: setitem.induct) (auto simp: getitem_def split: if_splits)

lemma getitem_Inr_iff: "getitem df n = Inr c \<longleftrightarrow> map_of df n = Some c"
  by (simp add: getitem_def split: option.splits)

lemma getitem_in_names: "getitem df name = Inr c \<Longrightarrow> name \<in> set (map fst df)"
  by (auto simp: getitem_Inr_iff dest!: map_of_SomeD intro: rev_image_eqI)

lemma getitem_KeyError: "name \<notin> fst ` set df \<Longrightarrow> getitem df name = Inl (KeyError name)"
  using map_of_eq_None_iff [of df name] by (simp add: getitem_def)

lemma has_rows_getitem: "has_rows n df \<Longrightarrow> getitem df name = Inr c \<Longrightarrow> col_len c = n"
  by (auto simp: has_rows_def getitem_Inr_iff list_all_iff dest!: map_of_SomeD)

lemma getitem_restrict_cols:
  "name \<in> set names \<Longrightarrow> getitem (restrict_cols names df) name = getitem df name"
  by (induction df) (auto simp: restrict_cols_def getitem_def)

lemma names_neq [simp]:
  "loc_cagr_col \<noteq> ''chosen_cagr''" "city_cagr_col \<noteq> ''chosen_cagr''" "price_col \<noteq> ''chosen_cagr''"
  "loc_cagr_col \<noteq> ''cagr_source''" "city_cagr_col \<noteq> ''cagr_source''" "price_col \<noteq> ''cagr_source''"
  "loc_cagr_col \<noteq> ''Price_per_SQFT_plus_1yr''" "city_cagr_col \<noteq> ''Price_per_SQFT_plus_1yr''"
  "price_col \<noteq> ''Price_per_SQFT_plus_1yr''"
  "loc_cagr_col \<noteq> ''Price_per_SQFT_plus_2yr''" "city_cagr_col \<noteq> ''Price_per_SQFT_plus_2yr''"
  "price_col \<noteq> ''Price_per_SQFT_plus_2yr''"
  "loc_cagr_col \<noteq> ''Price_per_SQFT_plus_3yr''" "city_cagr_col \<noteq> ''Price_per_SQFT_plus_3yr''"
  "price_col \<noteq> ''Price_per_SQFT_plus_3yr''"
  by (simp_all add: loc_cagr_col_def city_cagr_col_def price_col_def)

lemma getitem_new_frame:
  "getitem (new_frame df ch src f1 f2 f3) m =
     (if m = ''Price_per_SQFT_plus_3yr'' then Inr f3
      else if m = ''Price_per_SQFT_plus_2yr'' then Inr f2
      else if m = ''Price_per_SQFT_plus_1yr'' then Inr f1
      else if m = ''cagr_source'' then Inr (Object src)
      else if m = ''chosen_cagr'' then Inr ch
      else getitem df m)"
  by (simp add: new_frame_def getitem_setitem)

subsection \<open>Series\<close>

lemma length_select: "length (select cond xs ys) = min (length cond) (min (length xs) (length ys))"
  by (simp add: select_def)

lemma nth_select:
  "i < length cond \<Longrightarrow> i < length xs \<Longrightarrow> i < length ys \<Longrightarrow>
     select cond xs ys ! i = (if cond ! i then xs ! i else ys ! i)"
  by (simp add: select_def)

lemma length_notna [simp]: "length (notna c) = col_len c"
  by (cases c) simp_all

lemma length_cells: "numeric c \<Longrightarrow> length (cells c) = col_len c"
  by (cases c) simp_all

lemma is_int64_F64 [simp]: "\<not> is_int64 (map_option F64 x)"
  by (cases x) simp_all

lemma as_float64_F64 [simp]: "as_float64 (map_option F64 x) = map_option F64 x"
  by (cases x) (simp_all add: as_float64_def)

lemma as_float64_simps [simp]:
  "as_float64 None = None" "as_float64 (Some (I64 n)) = Some (F64 (fl (of_int n)))"
  "as_float64 (Some (F64 v)) = Some (F64 v)"
  by (simp_all add: as_float64_def)

lemma as_float64_same: "\<not> is_int64 v \<Longrightarrow> as_float64 v = v"
  by (cases v rule: is_int64.cases) simp_all

lemma promote_same: "is_int64 a = is_int64 b \<Longrightarrow> v = a \<or> v = b \<Longrightarrow> promote a b v = v"
  by (auto simp: promote_def as_float64_same)

lemma cell_round_F64 [simp]:
  "cell_round (map_option F64 x) d = map_option F64 (map_option (\<lambda>v. f64_round v d) x)"
  by (cases x) simp_all

lemma cell_radd_F64 [simp]:
  "cell_radd a (map_option F64 x) = map_option F64 (Option.bind x (f64_add (Fin (of_int a))))"
  by (cases x) simp_all

lemma cell_pow_F64 [simp]:
  "cell_pow (map_option F64 x) k = map_option F64 (map_option (\<lambda>v. f64_pow v k) x)"
  by (cases x) simp_all

lemma cell_mul_F64 [simp]:
  "cell_mul (map_option F64 x) (map_option F64 y) = map_option F64 (mul_cell x y)"
  "cell_mul (Some (I64 n)) (map_option F64 y) = map_option F64 (mul_cell (Some (fl (of_int n))) y)"
  "cell_mul (map_option F64 x) (Some (I64 n)) = map_option F64 (mul_cell x (Some (fl (of_int n))))"
  by (cases x; cases y; simp)+

lemma col_len_chosen_of: "col_len (chosen_of loc city) = min (col_len loc) (col_len city)"
  by (cases loc; cases city) (simp_all add: chosen_of_def length_select int64_as_float64_def)

lemma numeric_chosen_of: "numeric (chosen_of loc city) \<longleftrightarrow> numeric loc \<and> numeric city"
  by (cases loc; cases city) (simp_all add: chosen_of_def)

lemma cells_chosen_of:
  assumes "numeric loc" "numeric city" "i < col_len loc" "i < col_len city"
  shows "cells (chosen_of loc city) ! i =
     promote (cells loc ! i) (cells city ! i)
       (if cells loc ! i \<noteq> None then cells loc ! i else cells city ! i)"
  using assms
  by (cases loc; cases city)
    (auto simp: chosen_of_def length_select nth_select int64_as_float64_def promote_def)

lemma length_source_of: "length (source_of loc city) = min (col_len loc) (col_len city)"
  by (simp add: source_of_def np_where_str_def np_where_str2_def length_select)

lemma nth_notna: "numeric c \<Longrightarrow> i < col_len c \<Longrightarrow> notna c ! i \<longleftrightarrow> cells c ! i \<noteq> None"
  by (cases c) simp_all

lemma nth_source_of:
  assumes "numeric loc" "numeric city" "i < col_len loc" "i < col_len city"
  shows "source_of loc city ! i =
       Str (if cells loc ! i \<noteq> None then ''locality''
            else if cells city ! i \<noteq> None then ''city'' else ''none'')"
  using assms
  by (simp add: source_of_def np_where_str_def np_where_str2_def nth_select length_select
      nth_notna)

subsection \<open>One forecast column\<close>

lemma and_then_Inr: "and_then m f = Inr y \<longleftrightarrow> (\<exists>x. m = Inr x \<and> f x = Inr y)"
  by (cases m) simp_all

lemma forecast_of_numeric: "forecast_of k p c = Inr f \<Longrightarrow> numeric p \<and> numeric c \<and> numeric f"
  by (cases p; cases c) (auto simp: forecast_of_def)

lemma forecast_of_total: "numeric p \<Longrightarrow> numeric c \<Longrightarrow> \<exists>f. forecast_of k p c = Inr f"
  by (cases p; cases c) (simp_all add: forecast_of_def)

lemma col_len_forecast_of:
  "forecast_of k p c = Inr f \<Longrightarrow> col_len f = min (col_len p) (col_len c)"
  by (cases p; cases c) (auto simp: forecast_of_def int64_as_float64_def)

lemma cells_forecast_of:
  assumes "forecast_of k p c = Inr f" "i < col_len p" "i < col_len c"
  shows "cells f ! i = forecast_cell k (cells p ! i) (cells c ! i)"
  using assms
  by (cases p; cases c)
    (auto simp: forecast_of_def forecast_cell_def int64_as_float64_def
      simp flip: option.map_comp)

lemma forecast_of_Float64:
  "forecast_of k (Float64 ps) (Float64 cs) =
     Inr (Float64 (map (\<lambda>(p, c). f64_forecast k p c) (zip ps cs)))"
  by (simp add: forecast_of_def f64_forecast_def zip_map2 comp_def case_prod_unfold)

lemma f64_forecast_None [simp]: "f64_forecast k None c = None" "f64_forecast k q None = None"
  by (cases q; simp add: f64_forecast_def)+


lemma forecast_cell_None [simp]: "forecast_cell k None c = None" "forecast_cell k q None = None"
proof -
  show "forecast_cell k None c = None" by (simp add: forecast_cell_def)
  show "forecast_cell k q None = None"
  proof (cases q)
    case None
    then show ?thesis by (simp add: forecast_cell_def)
  next
    case (Some a)
    then show ?thesis by (cases a) (simp_all add: forecast_cell_def)
  qed
qed

subsection \<open>The script, inverted\<close>

lemma forecast_Inr:
  "forecast df k = Inr y \<longleftrightarrow>
     (\<exists>p c. getitem df price_col = Inr p \<and> getitem df ''chosen_cagr'' = Inr c
        \<and> forecast_of k p c = Inr y)"
  by (auto simp: forecast_def forecast_of_def and_then_Inr)

lemma set_chosen_cagr_Inr:
  "set_chosen_cagr df = Inr df1 \<longleftrightarrow>
     (\<exists>loc city. getitem df loc_cagr_col = Inr loc \<and> getitem df city_cagr_col = Inr city
        \<and> df1 = setitem df ''chosen_cagr'' (chosen_of loc city))"
  by (auto simp: set_chosen_cagr_def and_then_Inr chosen_of_def)

lemma set_cagr_source_Inr:
  "set_cagr_source df = Inr df1 \<longleftrightarrow>
     (\<exists>loc city. getitem df loc_cagr_col = Inr loc \<and> getitem df city_cagr_col = Inr city
        \<and> df1 = setitem df ''cagr_source'' (Object (source_of loc city)))"
  by (auto simp: set_cagr_source_def and_then_Inr source_of_def)

lemma set_forecast_Inr:
  "set_forecast name k df = Inr df1 \<longleftrightarrow>
     (\<exists>p c f. getitem df price_col = Inr p \<and> getitem df ''chosen_cagr'' = Inr c
        \<and> forecast_of k p c = Inr f \<and> df1 = setitem df name f)"
  by (auto simp: set_forecast_def and_then_Inr forecast_Inr)

text \<open>
  The script succeeds exactly on the frames on which the three forecast columns can be
  computed, and then its result is the closed form.
\<close>

lemma forecaster_Inr:
  "forecaster df = Inr out \<longleftrightarrow>
     (\<exists>loc city p f1 f2 f3.
        getitem df loc_cagr_col = Inr loc \<and> getitem df city_cagr_col = Inr city
        \<and> getitem df price_col = Inr p
        \<and> forecast_of 1 p (chosen_of loc city) = Inr f1
        \<and> forecast_of 2 p (chosen_of loc city) = Inr f2
        \<and> forecast_of 3 p (chosen_of loc city) = Inr f3
        \<and> out = new_frame df (chosen_of loc city) (source_of loc city) f1 f2 f3)"
  by (auto simp: forecaster_def and_then_Inr set_chosen_cagr_Inr set_cagr_source_Inr
      set_forecast_Inr getitem_setitem new_frame_def)

text \<open>It succeeds whenever the three columns it reads are numeric.\<close>

lemma forecaster_total:
  assumes "getitem df loc_cagr_col = Inr loc" "getitem df city_cagr_col = Inr city"
    "getitem df price_col = Inr p" "numeric loc" "numeric city" "numeric p"
  shows "\<exists>out. forecaster df = Inr out"
proof -
  have n: "numeric (chosen_of loc city)" using assms(4,5) by (simp add: numeric_chosen_of)
  obtain f1 f2 f3 where "forecast_of 1 p (chosen_of loc city) = Inr f1"
    "forecast_of 2 p (chosen_of loc city) = Inr f2"
    "forecast_of 3 p (chosen_of loc city) = Inr f3"
    using forecast_of_total [OF assms(6) n] by metis
  with assms(1-3) show ?thesis unfolding forecaster_Inr by blast
qed

text \<open>The run on a frame whose three columns are float64 columns.\<close>

lemma run_Float64:
  assumes "getitem df loc_cagr_col = Inr (Float64 ls)" "getitem df city_cagr_col = Inr (Float64 cs)"
    "getitem df price_col = Inr (Float64 ps)"
  shows "forecaster df = Inr (new_frame df
     (Float64 (select (map (\<lambda>x. x \<noteq> None) ls) ls cs))
     (source_of (Float64 ls) (Float64 cs))
     (Float64 (map (\<lambda>(p, c). f64_forecast 1 p c)
        (zip ps (select (map (\<lambda>x. x \<noteq> None) ls) ls cs))))
     (Float64 (map (\<lambda>(p, c). f64_forecast 2 p c)
        (zip ps (select (map (\<lambda>x. x \<noteq> None) ls) ls cs))))
     (Float64 (map (\<lambda>(p, c). f64_forecast 3 p c)
        (zip ps (select (map (\<lambda>x. x \<noteq> None) ls) ls cs)))))"
  unfolding forecaster_Inr using assms
  by (simp add: chosen_of_def forecast_of_Float64)

subsection \<open>Rows of the result\<close>

lemma num_cell_Some:
  "num_cell df name i = Some x \<longleftrightarrow>
     (\<exists>c. getitem df name = Inr c \<and> numeric c \<and> i < col_len c \<and> x = cells c ! i)"
  by (auto simp: num_cell_def split: sum.splits)

lemma object_cell_Some:
  "object_cell df name i = Some x \<longleftrightarrow>
     (\<exists>xs. getitem df name = Inr (Object xs) \<and> i < length xs \<and> x = xs ! i)"
  by (auto simp: object_cell_def split: sum.splits column.splits)

text \<open>Each derived cell of a row of the result is a function of the input cells of that row.\<close>

lemma forecaster_row:
  assumes "forecaster df = Inr out" and "row_at out i = Some r"
  shows "chosen_cagr r = promote (locality_cagr r) (city_cagr r)
            (if locality_cagr r \<noteq> None then locality_cagr r else city_cagr r)"
    and "cagr_source r = Str (if locality_cagr r \<noteq> None then ''locality''
            else if city_cagr r \<noteq> None then ''city'' else ''none'')"
    and "plus_1yr r = forecast_cell 1 (price r) (chosen_cagr r)"
    and "plus_2yr r = forecast_cell 2 (price r) (chosen_cagr r)"
    and "plus_3yr r = forecast_cell 3 (price r) (chosen_cagr r)"
proof -
  from assms(1) obtain loc city p f1 f2 f3 where
    cols: "getitem df loc_cagr_col = Inr loc" "getitem df city_cagr_col = Inr city"
      "getitem df price_col = Inr p"
    and fs: "forecast_of 1 p (chosen_of loc city) = Inr f1"
      "forecast_of 2 p (chosen_of loc city) = Inr f2"
      "forecast_of 3 p (chosen_of loc city) = Inr f3"
    and out: "out = new_frame df (chosen_of loc city) (source_of loc city) f1 f2 f3"
    unfolding forecaster_Inr by blast
  from assms(2) have r: "i < col_len p" "i < col_len loc" "i < col_len city"
    "numeric loc" "numeric city"
    "r = \<lparr>price = cells p ! i, locality_cagr = cells loc ! i, city_cagr = cells city ! i,
          chosen_cagr = cells (chosen_of loc city) ! i, cagr_source = source_of loc city ! i,
          plus_1yr = cells f1 ! i, plus_2yr = cells f2 ! i, plus_3yr = cells f3 ! i\<rparr>"
    by (auto simp: row_at_def bind_eq_Some_conv num_cell_Some object_cell_Some out
        getitem_new_frame cols)
  have ch: "i < col_len (chosen_of loc city)" using r(2,3) by (simp add: col_len_chosen_of)
  show "chosen_cagr r = promote (locality_cagr r) (city_cagr r)
            (if locality_cagr r \<noteq> None then locality_cagr r else city_cagr r)"
    using cells_chosen_of [OF r(4,5,2,3)] by (simp add: r(6))
  show "cagr_source r = Str (if locality_cagr r \<noteq> None then ''locality''
            else if city_cagr r \<noteq> None then ''city'' else ''none'')"
    using nth_source_of [OF r(4,5,2,3)] by (simp add: r(6))
  show "plus_1yr r = forecast_cell 1 (price r) (chosen_cagr r)"
    using cells_forecast_of [OF fs(1) r(1) ch] by (simp add: r(6))
  show "plus_2yr r = forecast_cell 2 (price r) (chosen_cagr r)"
    using cells_forecast_of [OF fs(2) r(1) ch] by (simp add: r(6))
  show "plus_3yr r = forecast_cell 3 (price r) (chosen_cagr r)"
    using cells_forecast_of [OF fs(3) r(1) ch] by (simp add: r(6))
qed

lemma row_at_new_frame:
  assumes "getitem df loc_cagr_col = Inr loc" "getitem df city_cagr_col = Inr city"
    "getitem df price_col = Inr p"
    "forecast_of 1 p (chosen_of loc city) = Inr f1"
    "forecast_of 2 p (chosen_of loc city) = Inr f2"
    "forecast_of 3 p (chosen_of loc city) = Inr f3"
    "col_len loc = n" "col_len city = n" "col_len p = n" "i < n"
  shows "row_at (new_frame df (chosen_of loc city) (source_of loc city) f1 f2 f3) i =
     Some \<lparr>price = cells p ! i, locality_cagr = cells loc ! i, city_cagr = cells city ! i,
          chosen_cagr = cells (chosen_of loc city) ! i, cagr_source = source_of loc city ! i,
          plus_1yr = cells f1 ! i, plus_2yr = cells f2 ! i, plus_3yr = cells f3 ! i\<rparr>"
proof -
  note n1 = forecast_of_numeric [OF assms(4)]
  note n2 = forecast_of_numeric [OF assms(5)]
  note n3 = forecast_of_numeric [OF assms(6)]
  have nc: "numeric loc" "numeric city" using n1 by (simp_all add: numeric_chosen_of)
  have len: "col_len (chosen_of loc city) = n" "length (source_of loc city) = n"
    "col_len f1 = n" "col_len f2 = n" "col_len f3 = n"
    using assms(7-9) col_len_forecast_of [OF assms(4)] col_len_forecast_of [OF assms(5)]
      col_len_forecast_of [OF assms(6)]
    by (simp_all add: col_len_chosen_of length_source_of)
  show ?thesis
    using assms(1-3,7-10) n1 n2 n3 nc len
    by (simp add: row_at_def num_cell_def object_cell_def getitem_new_frame)
qed

text \<open>The result of a run on a frame of \<open>n\<close> rows has a row for each index below \<open>n\<close>.\<close>

lemma forecaster_row_exists:
  assumes "forecaster df = Inr out" "has_rows n df" "i < n"
  shows "\<exists>r. row_at out i = Some r"
proof -
  from assms(1) obtain loc city p f1 f2 f3 where
    cols: "getitem df loc_cagr_col = Inr loc" "getitem df city_cagr_col = Inr city"
      "getitem df price_col = Inr p"
    and fs: "forecast_of 1 p (chosen_of loc city) = Inr f1"
      "forecast_of 2 p (chosen_of loc city) = Inr f2"
      "forecast_of 3 p (chosen_of loc city) = Inr f3"
    and out: "out = new_frame df (chosen_of loc city) (source_of loc city) f1 f2 f3"
    unfolding forecaster_Inr by blast
  have "col_len loc = n" "col_len city = n" "col_len p = n"
    using has_rows_getitem [OF assms(2)] cols by fastforce+
  then show ?thesis
    using row_at_new_frame [OF cols fs _ _ _ assms(3)] out by simp
qed

subsection \<open>Fresh names, repeated runs, failed runs\<close>

lemma new_frame_fresh:
  assumes "set new_columns \<inter> fst ` set df = {}"
  shows "new_frame df ch src f1 f2 f3 = df @
     [(''chosen_cagr'', ch), (''cagr_source'', Object src),
      (''Price_per_SQFT_plus_1yr'', f1), (''Price_per_SQFT_plus_2yr'', f2),
      (''Price_per_SQFT_plus_3yr'', f3)]"
  using assms by (simp add: new_frame_def new_columns_def setitem_fresh)

lemma new_frame_fixpoint:
  assumes "out = new_frame df ch src f1 f2 f3"
  shows "new_frame out ch src f1 f2 f3 = out"
proof -
  have "getitem out ''chosen_cagr'' = Inr ch"
    "getitem out ''cagr_source'' = Inr (Object src)"
    "getitem out ''Price_per_SQFT_plus_1yr'' = Inr f1"
    "getitem out ''Price_per_SQFT_plus_2yr'' = Inr f2"
    "getitem out ''Price_per_SQFT_plus_3yr'' = Inr f3"
    unfolding assms by (simp_all add: getitem_new_frame)
  then show ?thesis
    unfolding new_frame_def [of out] by (simp add: setitem_same)
qed

lemma run_KeyError:
  assumes "files fs input_file = Some df" and "forecaster df = Inl e"
  shows "run fs = (Some e, fs)"
  using assms by (simp add: run_def read_csv_def)

subsection \<open>A forecast cell: when it is missing\<close>

lemma f64_add_Fin: "\<exists>v. f64_add (Fin a) x = Some v"
  by (cases x) simp_all

lemma f64_mul_eq_None:
  "f64_mul x y = None \<longleftrightarrow> x = Fin 0 \<and> f64_infinite y \<or> f64_infinite x \<and> y = Fin 0"
  by (cases x; cases y) (auto simp: Let_def mult_eq_0_iff zero_less_mult_iff split: if_splits)

lemma cell_radd_eq_None: "cell_radd a c = None \<longleftrightarrow> c = None"
proof (cases c)
  case None
  then show ?thesis by simp
next
  case (Some x)
  then show ?thesis using f64_add_Fin [of "of_int a"] by (cases x) auto
qed

lemma cell_pow_eq_None: "cell_pow c k = None \<longleftrightarrow> c = None"
  by (cases "(c, k)" rule: cell_pow.cases) simp_all

lemma cell_round_eq_None: "cell_round c d = None \<longleftrightarrow> c = None"
  by (cases "(c, d)" rule: cell_round.cases) simp_all

lemma cell_mul_eq_None:
  "cell_mul p f = None \<longleftrightarrow> p = None \<or> f = None \<or> zero_times_infinity p f"
  by (cases "(p, f)" rule: cell_mul.cases) (simp_all add: f64_mul_eq_None)

lemma forecast_cell_eq_None:
  "forecast_cell k p c = None \<longleftrightarrow>
     p = None \<or> c = None \<or> zero_times_infinity p (cell_pow (cell_radd 1 c) k)"
  by (simp add: forecast_cell_def cell_round_eq_None cell_mul_eq_None cell_pow_eq_None
      cell_radd_eq_None)

subsection \<open>A forecast cell at the rate zero\<close>

lemma valid_num_fl: "valid_num (F64 (fl x))"
  by (cases "fl x") (simp_all add: fl_fl)

lemma f64_mul_one: "valid_num (F64 v) \<Longrightarrow> f64_mul v (Fin 1) = Some v"
  by (cases v) (simp_all add: Let_def)

lemma wrap64_1 [simp]: "wrap64 1 = 1"
  by (simp add: wrap64_def)

lemma forecast_cell_zero_rate:
  assumes "valid_num p" and "c = Some (I64 0) \<or> c = Some (F64 (Fin 0))"
  shows "forecast_cell k (Some p) c = cell_round (promote (Some p) c (Some p)) 2"
proof (cases p)
  case p: (I64 x)
  from assms(2) show ?thesis
  proof
    assume "c = Some (I64 0)"
    then show ?thesis using assms(1) p by (simp add: forecast_cell_def promote_def)
  next
    assume "c = Some (F64 (Fin 0))"
    then show ?thesis
      using f64_mul_one [OF valid_num_fl, of "of_int x"] p
      by (simp add: forecast_cell_def promote_def)
  qed
next
  case p: (F64 v)
  from assms(2) show ?thesis
  proof
    assume "c = Some (I64 0)"
    then show ?thesis
      using f64_mul_one [of v] assms(1) p by (simp add: forecast_cell_def promote_def)
  next
    assume "c = Some (F64 (Fin 0))"
    then show ?thesis
      using f64_mul_one [of v] assms(1) p by (simp add: forecast_cell_def promote_def)
  qed
qed

subsection \<open>Forecast cells at a float64 rate that is not negative\<close>







subsection \<open>The sample tables, evaluated\<close>

text \<open>The literals of the tables, and each forecast cell, operation by operation.\<close>

lemma dec_100_0: "dec 100 0 = Fin 100"
  unfolding dec_def
  by (subst fl_eval [where e = "6"]) (simp_all add: rint_def Let_def)

lemma dec_10_2: "dec 10 2 = Fin (3602879701896397 / 36028797018963968)"
  unfolding dec_def
  by (subst fl_eval [where e = "- 4"]) (simp_all add: rint_def Let_def)

lemma dec_1100_1: "dec 1100 1 = Fin 110"
  unfolding dec_def
  by (subst fl_eval [where e = "6"]) (simp_all add: rint_def Let_def)

lemma dec_1210_1: "dec 1210 1 = Fin 121"
  unfolding dec_def
  by (subst fl_eval [where e = "6"]) (simp_all add: rint_def Let_def)

lemma dec_1331_1: "dec 1331 1 = Fin (4683039925023539 / 35184372088832)"
  unfolding dec_def
  by (subst fl_eval [where e = "7"]) (simp_all add: rint_def Let_def)

lemma dec_200_0: "dec 200 0 = Fin 200"
  unfolding dec_def
  by (subst fl_eval [where e = "7"]) (simp_all add: rint_def Let_def)

lemma dec_4_2: "dec 4 2 = Fin (5764607523034235 / 144115188075855872)"
  unfolding dec_def
  by (subst fl_eval [where e = "- 5"]) (simp_all add: rint_def Let_def)

lemma dec_2080_1: "dec 2080 1 = Fin 208"
  unfolding dec_def
  by (subst fl_eval [where e = "7"]) (simp_all add: rint_def Let_def)

lemma dec_21632_2: "dec 21632 2 = Fin (3805541685128069 / 17592186044416)"
  unfolding dec_def
  by (subst fl_eval [where e = "7"]) (simp_all add: rint_def Let_def)

lemma dec_22497_2: "dec 22497 2 = Fin (7915428188824535 / 35184372088832)"
  unfolding dec_def
  by (subst fl_eval [where e = "7"]) (simp_all add: rint_def Let_def)

lemma dec_75125_3: "dec 75125 3 = Fin (601 / 8)"
  unfolding dec_def
  by (subst fl_eval [where e = "6"]) (simp_all add: rint_def Let_def)

lemma dec_0_0: "dec 0 0 = Fin 0"
  by (simp add: dec_def)

lemma dec_7512_2: "dec 7512 2 = Fin (660762507828265 / 8796093022208)"
  unfolding dec_def
  by (subst fl_eval [where e = "6"]) (simp_all add: rint_def Let_def)

lemma dec_1000_0: "dec 1000 0 = Fin 1000"
  unfolding dec_def
  by (subst fl_eval [where e = "9"]) (simp_all add: rint_def Let_def)

lemma dec_5_2: "dec 5 2 = Fin (3602879701896397 / 72057594037927936)"
  unfolding dec_def
  by (subst fl_eval [where e = "- 5"]) (simp_all add: rint_def Let_def)

lemma dec_10500_1: "dec 10500 1 = Fin 1050"
  unfolding dec_def
  by (subst fl_eval [where e = "10"]) (simp_all add: rint_def Let_def)

lemma dec_11025_1: "dec 11025 1 = Fin (2205 / 2)"
  unfolding dec_def
  by (subst fl_eval [where e = "10"]) (simp_all add: rint_def Let_def)

lemma dec_115763_2: "dec 115763 2 = Fin (1272827645662331 / 1099511627776)"
  unfolding dec_def
  by (subst fl_eval [where e = "10"]) (simp_all add: rint_def Let_def)

lemma dec_2675_3: "dec 2675 3 = Fin (3011782250804019 / 1125899906842624)"
  unfolding dec_def
  by (subst fl_eval [where e = "1"]) (simp_all add: rint_def Let_def)

lemma dec_268_2: "dec 268 2 = Fin (6034823500676465 / 2251799813685248)"
  unfolding dec_def
  by (subst fl_eval [where e = "1"]) (simp_all add: rint_def Let_def)

lemma dec_575_3: "dec 575 3 = Fin (2589569785738035 / 4503599627370496)"
  unfolding dec_def
  by (subst fl_eval [where e = "- 1"]) (simp_all add: rint_def Let_def)

lemma dec_57_2: "dec 57 2 = Fin (5134103575202365 / 9007199254740992)"
  unfolding dec_def
  by (subst fl_eval [where e = "- 1"]) (simp_all add: rint_def Let_def)

lemma dec_4000000000000000000_0: "dec 4000000000000000000 0 = Fin 4000000000000000000"
  unfolding dec_def
  by (subst fl_eval [where e = "61"]) (simp_all add: rint_def Let_def)

lemma dec_2_0: "dec 2 0 = Fin 2"
  unfolding dec_def
  by (subst fl_eval [where e = "1"]) (simp_all add: rint_def Let_def)

lemma dec_12000000000000000000_0: "dec 12000000000000000000 0 = Fin 12000000000000000000"
  unfolding dec_def
  by (subst fl_eval [where e = "63"]) (simp_all add: rint_def Let_def)

lemma dec_36000000000000000000_0: "dec 36000000000000000000 0 = Fin 36000000000000000000"
  unfolding dec_def
  by (subst fl_eval [where e = "64"]) (simp_all add: rint_def Let_def)

lemma dec_108000000000000000000_0: "dec 108000000000000000000 0 = Fin 108000000000000000000"
  unfolding dec_def
  by (subst fl_eval [where e = "66"]) (simp_all add: rint_def Let_def)

lemma sci_1_200: "sci 1 200 = Fin 99999999999999996973312221251036165947450327545502362648241750950346848435554075534196338404706251868027512415973882408182135734368278484639385041047239877871023591066789981811181813306167128854888448"
  unfolding sci_def
  by (subst fl_eval [where e = "664"]) (simp_all add: rint_def Let_def)

lemma dec_0_1: "dec 0 1 = Fin 0"
  by (simp add: dec_def)


lemma sample_cell_0_1:
  "f64_forecast 1 (Some (dec 100 0)) (Some (dec 10 2)) = Some (dec 1100 1)"
proof -
  have s1: "fl (1 + (3602879701896397 / 36028797018963968)) = Fin (2476979795053773 / 2251799813685248)"
    by (subst fl_eval [where e = "0"]) (simp_all add: rint_def Let_def power_divide)
  have s2: "fl ((2476979795053773 / 2251799813685248) ^ 1) = Fin (2476979795053773 / 2251799813685248)"
    by (subst fl_eval [where e = "0"]) (simp_all add: rint_def Let_def power_divide)
  have s3: "fl (100 * (2476979795053773 / 2251799813685248)) = Fin (7740561859543041 / 70368744177664)"
    by (subst fl_eval [where e = "6"]) (simp_all add: rint_def Let_def power_divide)
  have s4: "fl ((7740561859543041 / 70368744177664) * 10 ^ 2) = Fin (6047313952768001 / 549755813888)"
    by (subst fl_eval [where e = "13"]) (simp_all add: rint_def Let_def power_divide)
  have s5: "rint (6047313952768001 / 549755813888) = 11000"
    by (simp add: rint_def Let_def)
  have s6: "fl (11000 / 10 ^ 2) = Fin 110"
    by (subst fl_eval [where e = "6"]) (simp_all add: rint_def Let_def power_divide)
  show ?thesis
    by (simp only: f64_forecast_def dec_100_0 dec_10_2 dec_1100_1 bind.bind_lunit f64_add.simps option.map
        f64_pow.simps mul_cell.simps f64_mul.simps f64_round.simps f64.case s1 s2 s3 s4 s5 s6)
qed

lemma sample_cell_0_2:
  "f64_forecast 2 (Some (dec 100 0)) (Some (dec 10 2)) = Some (dec 1210 1)"
proof -
  have s1: "fl (1 + (3602879701896397 / 36028797018963968)) = Fin (2476979795053773 / 2251799813685248)"
    by (subst fl_eval [where e = "0"]) (simp_all add: rint_def Let_def power_divide)
  have s2: "fl ((2476979795053773 / 2251799813685248) ^ 2) = Fin (5449355549118301 / 4503599627370496)"
    by (subst fl_eval [where e = "0"]) (simp_all add: rint_def Let_def power_divide)
  have s3: "fl (100 * (5449355549118301 / 4503599627370496)) = Fin (8514618045497345 / 70368744177664)"
    by (subst fl_eval [where e = "6"]) (simp_all add: rint_def Let_def power_divide)
  have s4: "fl ((8514618045497345 / 70368744177664) * 10 ^ 2) = Fin (6652045348044801 / 549755813888)"
    by (subst fl_eval [where e = "13"]) (simp_all add: rint_def Let_def power_divide)
  have s5: "rint (6652045348044801 / 549755813888) = 12100"
    by (simp add: rint_def Let_def)
  have s6: "fl (12100 / 10 ^ 2) = Fin 121"
    by (subst fl_eval [where e = "6"]) (simp_all add: rint_def Let_def power_divide)
  show ?thesis
    by (simp only: f64_forecast_def dec_100_0 dec_10_2 dec_1210_1 bind.bind_lunit f64_add.simps option.map
        f64_pow.simps mul_cell.simps f64_mul.simps f64_round.simps f64.case s1 s2 s3 s4 s5 s6)
qed

lemma sample_cell_0_3:
  "f64_forecast 3 (Some (dec 100 0)) (Some (dec 10 2)) = Some (dec 1331 1)"
proof -
  have s1: "fl (1 + (3602879701896397 / 36028797018963968)) = Fin (2476979795053773 / 2251799813685248)"
    by (subst fl_eval [where e = "0"]) (simp_all add: rint_def Let_def power_divide)
  have s2: "fl ((2476979795053773 / 2251799813685248) ^ 3) = Fin (1498572776007533 / 1125899906842624)"
    by (subst fl_eval [where e = "0"]) (simp_all add: rint_def Let_def power_divide)
  have s3: "fl (100 * (1498572776007533 / 1125899906842624)) = Fin (4683039925023541 / 35184372088832)"
    by (subst fl_eval [where e = "7"]) (simp_all add: rint_def Let_def power_divide)
  have s4: "fl ((4683039925023541 / 35184372088832) * 10 ^ 2) = Fin (7317249882849283 / 549755813888)"
    by (subst fl_eval [where e = "13"]) (simp_all add: rint_def Let_def power_divide)
  have s5: "rint (7317249882849283 / 549755813888) = 13310"
    by (simp add: rint_def Let_def)
  have s6: "fl (13310 / 10 ^ 2) = Fin (4683039925023539 / 35184372088832)"
    by (subst fl_eval [where e = "7"]) (simp_all add: rint_def Let_def power_divide)
  show ?thesis
    by (simp only: f64_forecast_def dec_100_0 dec_10_2 dec_1331_1 bind.bind_lunit f64_add.simps option.map
        f64_pow.simps mul_cell.simps f64_mul.simps f64_round.simps f64.case s1 s2 s3 s4 s5 s6)
qed

lemma sample_cell_1_1:
  "f64_forecast 1 (Some (dec 200 0)) (Some (dec 4 2)) = Some (dec 2080 1)"
proof -
  have s1: "fl (1 + (5764607523034235 / 144115188075855872)) = Fin (1170935903116329 / 1125899906842624)"
    by (subst fl_eval [where e = "0"]) (simp_all add: rint_def Let_def power_divide)
  have s2: "fl ((1170935903116329 / 1125899906842624) ^ 1) = Fin (1170935903116329 / 1125899906842624)"
    by (subst fl_eval [where e = "0"]) (simp_all add: rint_def Let_def power_divide)
  have s3: "fl (200 * (1170935903116329 / 1125899906842624)) = Fin 208"
    by (subst fl_eval [where e = "7"]) (simp_all add: rint_def Let_def power_divide)
  have s4: "fl (208 * 10 ^ 2) = Fin 20800"
    by (subst fl_eval [where e = "14"]) (simp_all add: rint_def Let_def power_divide)
  have s5: "rint 20800 = 20800"
    by (simp add: rint_def Let_def)
  have s6: "fl (20800 / 10 ^ 2) = Fin 208"
    by (subst fl_eval [where e = "7"]) (simp_all add: rint_def Let_def power_divide)
  show ?thesis
    by (simp only: f64_forecast_def dec_200_0 dec_4_2 dec_2080_1 bind.bind_lunit f64_add.simps option.map
        f64_pow.simps mul_cell.simps f64_mul.simps f64_round.simps f64.case s1 s2 s3 s4 s5 s6)
qed

lemma sample_cell_1_2:
  "f64_forecast 2 (Some (dec 200 0)) (Some (dec 4 2)) = Some (dec 21632 2)"
proof -
  have s1: "fl (1 + (5764607523034235 / 144115188075855872)) = Fin (1170935903116329 / 1125899906842624)"
    by (subst fl_eval [where e = "0"]) (simp_all add: rint_def Let_def power_divide)
  have s2: "fl ((1170935903116329 / 1125899906842624) ^ 2) = Fin (4871093356963929 / 4503599627370496)"
    by (subst fl_eval [where e = "0"]) (simp_all add: rint_def Let_def power_divide)
  have s3: "fl (200 * (4871093356963929 / 4503599627370496)) = Fin (7611083370256139 / 35184372088832)"
    by (subst fl_eval [where e = "7"]) (simp_all add: rint_def Let_def power_divide)
  have s4: "fl ((7611083370256139 / 35184372088832) * 10 ^ 2) = Fin (5946158883012609 / 274877906944)"
    by (subst fl_eval [where e = "14"]) (simp_all add: rint_def Let_def power_divide)
  have s5: "rint (5946158883012609 / 274877906944) = 21632"
    by (simp add: rint_def Let_def)
  have s6: "fl (21632 / 10 ^ 2) = Fin (3805541685128069 / 17592186044416)"
    by (subst fl_eval [where e = "7"]) (simp_all add: rint_def Let_def power_divide)
  show ?thesis
    by (simp only: f64_forecast_def dec_200_0 dec_4_2 dec_21632_2 bind.bind_lunit f64_add.simps option.map
        f64_pow.simps mul_cell.simps f64_mul.simps f64_round.simps f64.case s1 s2 s3 s4 s5 s6)
qed

lemma sample_cell_1_3:
  "f64_forecast 3 (Some (dec 200 0)) (Some (dec 4 2)) = Some (dec 22497 2)"
proof -
  have s1: "fl (1 + (5764607523034235 / 144115188075855872)) = Fin (1170935903116329 / 1125899906842624)"
    by (subst fl_eval [where e = "0"]) (simp_all add: rint_def Let_def power_divide)
  have s2: "fl ((1170935903116329 / 1125899906842624) ^ 3) = Fin (2532968545621243 / 2251799813685248)"
    by (subst fl_eval [where e = "0"]) (simp_all add: rint_def Let_def power_divide)
  have s3: "fl (200 * (2532968545621243 / 2251799813685248)) = Fin (494720419066649 / 2199023255552)"
    by (subst fl_eval [where e = "7"]) (simp_all add: rint_def Let_def power_divide)
  have s4: "fl ((494720419066649 / 2199023255552) * 10 ^ 2) = Fin (773000654791639 / 34359738368)"
    by (subst fl_eval [where e = "14"]) (simp_all add: rint_def Let_def power_divide)
  have s5: "rint (773000654791639 / 34359738368) = 22497"
    by (simp add: rint_def Let_def)
  have s6: "fl (22497 / 10 ^ 2) = Fin (7915428188824535 / 35184372088832)"
    by (subst fl_eval [where e = "7"]) (simp_all add: rint_def Let_def power_divide)
  show ?thesis
    by (simp only: f64_forecast_def dec_200_0 dec_4_2 dec_22497_2 bind.bind_lunit f64_add.simps option.map
        f64_pow.simps mul_cell.simps f64_mul.simps f64_round.simps f64.case s1 s2 s3 s4 s5 s6)
qed

lemma sample_cell_3_1:
  "f64_forecast 1 (Some (dec 75125 3)) (Some (dec 0 0)) = Some (dec 7512 2)"
proof -
  have s1: "fl (1 + 0) = Fin 1"
    by (subst fl_eval [where e = "0"]) (simp_all add: rint_def Let_def power_divide)
  have s2: "fl (1 ^ 1) = Fin 1"
    by (subst fl_eval [where e = "0"]) (simp_all add: rint_def Let_def power_divide)
  have s3: "fl ((601 / 8) * 1) = Fin (601 / 8)"
    by (subst fl_eval [where e = "6"]) (simp_all add: rint_def Let_def power_divide)
  have s4: "fl ((601 / 8) * 10 ^ 2) = Fin (15025 / 2)"
    by (subst fl_eval [where e = "12"]) (simp_all add: rint_def Let_def power_divide)
  have s5: "rint (15025 / 2) = 7512"
    by (simp add: rint_def Let_def)
  have s6: "fl (7512 / 10 ^ 2) = Fin (660762507828265 / 8796093022208)"
    by (subst fl_eval [where e = "6"]) (simp_all add: rint_def Let_def power_divide)
  show ?thesis
    by (simp only: f64_forecast_def dec_75125_3 dec_0_0 dec_7512_2 bind.bind_lunit f64_add.simps option.map
        f64_pow.simps mul_cell.simps f64_mul.simps f64_round.simps f64.case s1 s2 s3 s4 s5 s6)
qed

lemma sample_cell_3_2:
  "f64_forecast 2 (Some (dec 75125 3)) (Some (dec 0 0)) = Some (dec 7512 2)"
proof -
  have s1: "fl (1 + 0) = Fin 1"
    by (subst fl_eval [where e = "0"]) (simp_all add: rint_def Let_def power_divide)
  have s2: "fl (1 ^ 2) = Fin 1"
    by (subst fl_eval [where e = "0"]) (simp_all add: rint_def Let_def power_divide)
  have s3: "fl ((601 / 8) * 1) = Fin (601 / 8)"
    by (subst fl_eval [where e = "6"]) (simp_all add: rint_def Let_def power_divide)
  have s4: "fl ((601 / 8) * 10 ^ 2) = Fin (15025 / 2)"
    by (subst fl_eval [where e = "12"]) (simp_all add: rint_def Let_def power_divide)
  have s5: "rint (15025 / 2) = 7512"
    by (simp add: rint_def Let_def)
  have s6: "fl (7512 / 10 ^ 2) = Fin (660762507828265 / 8796093022208)"
    by (subst fl_eval [where e = "6"]) (simp_all add: rint_def Let_def power_divide)
  show ?thesis
    by (simp only: f64_forecast_def dec_75125_3 dec_0_0 dec_7512_2 bind.bind_lunit f64_add.simps option.map
        f64_pow.simps mul_cell.simps f64_mul.simps f64_round.simps f64.case s1 s2 s3 s4 s5 s6)
qed

lemma sample_cell_3_3:
  "f64_forecast 3 (Some (dec 75125 3)) (Some (dec 0 0)) = Some (dec 7512 2)"
proof -
  have s1: "fl (1 + 0) = Fin 1"
    by (subst fl_eval [where e = "0"]) (simp_all add: rint_def Let_def power_divide)
  have s2: "fl (1 ^ 3) = Fin 1"
    by (subst fl_eval [where e = "0"]) (simp_all add: rint_def Let_def power_divide)
  have s3: "fl ((601 / 8) * 1) = Fin (601 / 8)"
    by (subst fl_eval [where e = "6"]) (simp_all add: rint_def Let_def power_divide)
  have s4: "fl ((601 / 8) * 10 ^ 2) = Fin (15025 / 2)"
    by (subst fl_eval [where e = "12"]) (simp_all add: rint_def Let_def power_divide)
  have s5: "rint (15025 / 2) = 7512"
    by (simp add: rint_def Let_def)
  have s6: "fl (7512 / 10 ^ 2) = Fin (660762507828265 / 8796093022208)"
    by (subst fl_eval [where e = "6"]) (simp_all add: rint_def Let_def power_divide)
  show ?thesis
    by (simp only: f64_forecast_def dec_75125_3 dec_0_0 dec_7512_2 bind.bind_lunit f64_add.simps option.map
        f64_pow.simps mul_cell.simps f64_mul.simps f64_round.simps f64.case s1 s2 s3 s4 s5 s6)
qed

lemma sample_cell_5_1:
  "f64_forecast 1 (Some (dec 1000 0)) (Some (dec 5 2)) = Some (dec 10500 1)"
proof -
  have s1: "fl (1 + (3602879701896397 / 72057594037927936)) = Fin (4728779608739021 / 4503599627370496)"
    by (subst fl_eval [where e = "0"]) (simp_all add: rint_def Let_def power_divide)
  have s2: "fl ((4728779608739021 / 4503599627370496) ^ 1) = Fin (4728779608739021 / 4503599627370496)"
    by (subst fl_eval [where e = "0"]) (simp_all add: rint_def Let_def power_divide)
  have s3: "fl (1000 * (4728779608739021 / 4503599627370496)) = Fin 1050"
    by (subst fl_eval [where e = "10"]) (simp_all add: rint_def Let_def power_divide)
  have s4: "fl (1050 * 10 ^ 2) = Fin 105000"
    by (subst fl_eval [where e = "16"]) (simp_all add: rint_def Let_def power_divide)
  have s5: "rint 105000 = 105000"
    by (simp add: rint_def Let_def)
  have s6: "fl (105000 / 10 ^ 2) = Fin 1050"
    by (subst fl_eval [where e = "10"]) (simp_all add: rint_def Let_def power_divide)
  show ?thesis
    by (simp only: f64_forecast_def dec_1000_0 dec_5_2 dec_10500_1 bind.bind_lunit f64_add.simps option.map
        f64_pow.simps mul_cell.simps f64_mul.simps f64_round.simps f64.case s1 s2 s3 s4 s5 s6)
qed

lemma sample_cell_5_2:
  "f64_forecast 2 (Some (dec 1000 0)) (Some (dec 5 2)) = Some (dec 11025 1)"
proof -
  have s1: "fl (1 + (3602879701896397 / 72057594037927936)) = Fin (4728779608739021 / 4503599627370496)"
    by (subst fl_eval [where e = "0"]) (simp_all add: rint_def Let_def power_divide)
  have s2: "fl ((4728779608739021 / 4503599627370496) ^ 2) = Fin (1241304647293993 / 1125899906842624)"
    by (subst fl_eval [where e = "0"]) (simp_all add: rint_def Let_def power_divide)
  have s3: "fl (1000 * (1241304647293993 / 1125899906842624)) = Fin (2205 / 2)"
    by (subst fl_eval [where e = "10"]) (simp_all add: rint_def Let_def power_divide)
  have s4: "fl ((2205 / 2) * 10 ^ 2) = Fin 110250"
    by (subst fl_eval [where e = "16"]) (simp_all add: rint_def Let_def power_divide)
  have s5: "rint 110250 = 110250"
    by (simp add: rint_def Let_def)
  have s6: "fl (110250 / 10 ^ 2) = Fin (2205 / 2)"
    by (subst fl_eval [where e = "10"]) (simp_all add: rint_def Let_def power_divide)
  show ?thesis
    by (simp only: f64_forecast_def dec_1000_0 dec_5_2 dec_11025_1 bind.bind_lunit f64_add.simps option.map
        f64_pow.simps mul_cell.simps f64_mul.simps f64_round.simps f64.case s1 s2 s3 s4 s5 s6)
qed

lemma sample_cell_5_3:
  "f64_forecast 3 (Some (dec 1000 0)) (Some (dec 5 2)) = Some (dec 115763 2)"
proof -
  have s1: "fl (1 + (3602879701896397 / 72057594037927936)) = Fin (4728779608739021 / 4503599627370496)"
    by (subst fl_eval [where e = "0"]) (simp_all add: rint_def Let_def power_divide)
  have s2: "fl ((4728779608739021 / 4503599627370496) ^ 3) = Fin (5213479518634771 / 4503599627370496)"
    by (subst fl_eval [where e = "0"]) (simp_all add: rint_def Let_def power_divide)
  have s3: "fl (1000 * (5213479518634771 / 4503599627370496)) = Fin (5091288592416769 / 4398046511104)"
    by (subst fl_eval [where e = "10"]) (simp_all add: rint_def Let_def power_divide)
  have s4: "fl ((5091288592416769 / 4398046511104) * 10 ^ 2) = Fin (3977569212825601 / 34359738368)"
    by (subst fl_eval [where e = "16"]) (simp_all add: rint_def Let_def power_divide)
  have s5: "rint (3977569212825601 / 34359738368) = 115763"
    by (simp add: rint_def Let_def)
  have s6: "fl (115763 / 10 ^ 2) = Fin (1272827645662331 / 1099511627776)"
    by (subst fl_eval [where e = "10"]) (simp_all add: rint_def Let_def power_divide)
  show ?thesis
    by (simp only: f64_forecast_def dec_1000_0 dec_5_2 dec_115763_2 bind.bind_lunit f64_add.simps option.map
        f64_pow.simps mul_cell.simps f64_mul.simps f64_round.simps f64.case s1 s2 s3 s4 s5 s6)
qed

lemma sample_cell_6_1:
  "f64_forecast 1 (Some (dec 2675 3)) (Some (dec 0 0)) = Some (dec 268 2)"
proof -
  have s1: "fl (1 + 0) = Fin 1"
    by (subst fl_eval [where e = "0"]) (simp_all add: rint_def Let_def power_divide)
  have s2: "fl (1 ^ 1) = Fin 1"
    by (subst fl_eval [where e = "0"]) (simp_all add: rint_def Let_def power_divide)
  have s3: "fl ((3011782250804019 / 1125899906842624) * 1) = Fin (3011782250804019 / 1125899906842624)"
    by (subst fl_eval [where e = "1"]) (simp_all add: rint_def Let_def power_divide)
  have s4: "fl ((3011782250804019 / 1125899906842624) * 10 ^ 2) = Fin (535 / 2)"
    by (subst fl_eval [where e = "8"]) (simp_all add: rint_def Let_def power_divide)
  have s5: "rint (535 / 2) = 268"
    by (simp add: rint_def Let_def)
  have s6: "fl (268 / 10 ^ 2) = Fin (6034823500676465 / 2251799813685248)"
    by (subst fl_eval [where e = "1"]) (simp_all add: rint_def Let_def power_divide)
  show ?thesis
    by (simp only: f64_forecast_def dec_2675_3 dec_0_0 dec_268_2 bind.bind_lunit f64_add.simps option.map
        f64_pow.simps mul_cell.simps f64_mul.simps f64_round.simps f64.case s1 s2 s3 s4 s5 s6)
qed

lemma sample_cell_6_2:
  "f64_forecast 2 (Some (dec 2675 3)) (Some (dec 0 0)) = Some (dec 268 2)"
proof -
  have s1: "fl (1 + 0) = Fin 1"
    by (subst fl_eval [where e = "0"]) (simp_all add: rint_def Let_def power_divide)
  have s2: "fl (1 ^ 2) = Fin 1"
    by (subst fl_eval [where e = "0"]) (simp_all add: rint_def Let_def power_divide)
  have s3: "fl ((3011782250804019 / 1125899906842624) * 1) = Fin (3011782250804019 / 1125899906842624)"
    by (subst fl_eval [where e = "1"]) (simp_all add: rint_def Let_def power_divide)
  have s4: "fl ((3011782250804019 / 1125899906842624) * 10 ^ 2) = Fin (535 / 2)"
    by (subst fl_eval [where e = "8"]) (simp_all add: rint_def Let_def power_divide)
  have s5: "rint (535 / 2) = 268"
    by (simp add: rint_def Let_def)
  have s6: "fl (268 / 10 ^ 2) = Fin (6034823500676465 / 2251799813685248)"
    by (subst fl_eval [where e = "1"]) (simp_all add: rint_def Let_def power_divide)
  show ?thesis
    by (simp only: f64_forecast_def dec_2675_3 dec_0_0 dec_268_2 bind.bind_lunit f64_add.simps option.map
        f64_pow.simps mul_cell.simps f64_mul.simps f64_round.simps f64.case s1 s2 s3 s4 s5 s6)
qed

lemma sample_cell_6_3:
  "f64_forecast 3 (Some (dec 2675 3)) (Some (dec 0 0)) = Some (dec 268 2)"
proof -
  have s1: "fl (1 + 0) = Fin 1"
    by (subst fl_eval [where e = "0"]) (simp_all add: rint_def Let_def power_divide)
  have s2: "fl (1 ^ 3) = Fin 1"
    by (subst fl_eval [where e = "0"]) (simp_all add: rint_def Let_def power_divide)
  have s3: "fl ((3011782250804019 / 1125899906842624) * 1) = Fin (3011782250804019 / 1125899906842624)"
    by (subst fl_eval [where e = "1"]) (simp_all add: rint_def Let_def power_divide)
  have s4: "fl ((3011782250804019 / 1125899906842624) * 10 ^ 2) = Fin (535 / 2)"
    by (subst fl_eval [where e = "8"]) (simp_all add: rint_def Let_def power_divide)
  have s5: "rint (535 / 2) = 268"
    by (simp add: rint_def Let_def)
  have s6: "fl (268 / 10 ^ 2) = Fin (6034823500676465 / 2251799813685248)"
    by (subst fl_eval [where e = "1"]) (simp_all add: rint_def Let_def power_divide)
  show ?thesis
    by (simp only: f64_forecast_def dec_2675_3 dec_0_0 dec_268_2 bind.bind_lunit f64_add.simps option.map
        f64_pow.simps mul_cell.simps f64_mul.simps f64_round.simps f64.case s1 s2 s3 s4 s5 s6)
qed

lemma sample_cell_7_1:
  "f64_forecast 1 (Some (dec 575 3)) (Some (dec 0 0)) = Some (dec 57 2)"
proof -
  have s1: "fl (1 + 0) = Fin 1"
    by (subst fl_eval [where e = "0"]) (simp_all add: rint_def Let_def power_divide)
  have s2: "fl (1 ^ 1) = Fin 1"
    by (subst fl_eval [where e = "0"]) (simp_all add: rint_def Let_def power_divide)
  have s3: "fl ((2589569785738035 / 4503599627370496) * 1) = Fin (2589569785738035 / 4503599627370496)"
    by (subst fl_eval [where e = "- 1"]) (simp_all add: rint_def Let_def power_divide)
  have s4: "fl ((2589569785738035 / 4503599627370496) * 10 ^ 2) = Fin (8092405580431359 / 140737488355328)"
    by (subst fl_eval [where e = "5"]) (simp_all add: rint_def Let_def power_divide)
  have s5: "rint (8092405580431359 / 140737488355328) = 57"
    by (simp add: rint_def Let_def)
  have s6: "fl (57 / 10 ^ 2) = Fin (5134103575202365 / 9007199254740992)"
    by (subst fl_eval [where e = "- 1"]) (simp_all add: rint_def Let_def power_divide)
  show ?thesis
    by (simp only: f64_forecast_def dec_575_3 dec_0_0 dec_57_2 bind.bind_lunit f64_add.simps option.map
        f64_pow.simps mul_cell.simps f64_mul.simps f64_round.simps f64.case s1 s2 s3 s4 s5 s6)
qed

lemma sample_cell_7_2:
  "f64_forecast 2 (Some (dec 575 3)) (Some (dec 0 0)) = Some (dec 57 2)"
proof -
  have s1: "fl (1 + 0) = Fin 1"
    by (subst fl_eval [where e = "0"]) (simp_all add: rint_def Let_def power_divide)
  have s2: "fl (1 ^ 2) = Fin 1"
    by (subst fl_eval [where e = "0"]) (simp_all add: rint_def Let_def power_divide)
  have s3: "fl ((2589569785738035 / 4503599627370496) * 1) = Fin (2589569785738035 / 4503599627370496)"
    by (subst fl_eval [where e = "- 1"]) (simp_all add: rint_def Let_def power_divide)
  have s4: "fl ((2589569785738035 / 4503599627370496) * 10 ^ 2) = Fin (8092405580431359 / 140737488355328)"
    by (subst fl_eval [where e = "5"]) (simp_all add: rint_def Let_def power_divide)
  have s5: "rint (8092405580431359 / 140737488355328) = 57"
    by (simp add: rint_def Let_def)
  have s6: "fl (57 / 10 ^ 2) = Fin (5134103575202365 / 9007199254740992)"
    by (subst fl_eval [where e = "- 1"]) (simp_all add: rint_def Let_def power_divide)
  show ?thesis
    by (simp only: f64_forecast_def dec_575_3 dec_0_0 dec_57_2 bind.bind_lunit f64_add.simps option.map
        f64_pow.simps mul_cell.simps f64_mul.simps f64_round.simps f64.case s1 s2 s3 s4 s5 s6)
qed

lemma sample_cell_7_3:
  "f64_forecast 3 (Some (dec 575 3)) (Some (dec 0 0)) = Some (dec 57 2)"
proof -
  have s1: "fl (1 + 0) = Fin 1"
    by (subst fl_eval [where e = "0"]) (simp_all add: rint_def Let_def power_divide)
  have s2: "fl (1 ^ 3) = Fin 1"
    by (subst fl_eval [where e = "0"]) (simp_all add: rint_def Let_def power_divide)
  have s3: "fl ((2589569785738035 / 4503599627370496) * 1) = Fin (2589569785738035 / 4503599627370496)"
    by (subst fl_eval [where e = "- 1"]) (simp_all add: rint_def Let_def power_divide)
  have s4: "fl ((2589569785738035 / 4503599627370496) * 10 ^ 2) = Fin (8092405580431359 / 140737488355328)"
    by (subst fl_eval [where e = "5"]) (simp_all add: rint_def Let_def power_divide)
  have s5: "rint (8092405580431359 / 140737488355328) = 57"
    by (simp add: rint_def Let_def)
  have s6: "fl (57 / 10 ^ 2) = Fin (5134103575202365 / 9007199254740992)"
    by (subst fl_eval [where e = "- 1"]) (simp_all add: rint_def Let_def power_divide)
  show ?thesis
    by (simp only: f64_forecast_def dec_575_3 dec_0_0 dec_57_2 bind.bind_lunit f64_add.simps option.map
        f64_pow.simps mul_cell.simps f64_mul.simps f64_round.simps f64.case s1 s2 s3 s4 s5 s6)
qed

lemma float_cell_0_1:
  "f64_forecast 1 (Some (dec 4000000000000000000 0)) (Some (dec 2 0)) = Some (dec 12000000000000000000 0)"
proof -
  have s1: "fl (1 + 2) = Fin 3"
    by (subst fl_eval [where e = "1"]) (simp_all add: rint_def Let_def power_divide)
  have s2: "fl (3 ^ 1) = Fin 3"
    by (subst fl_eval [where e = "1"]) (simp_all add: rint_def Let_def power_divide)
  have s3: "fl (4000000000000000000 * 3) = Fin 12000000000000000000"
    by (subst fl_eval [where e = "63"]) (simp_all add: rint_def Let_def power_divide)
  have s4: "fl (12000000000000000000 * 10 ^ 2) = Fin 1200000000000000000000"
    by (subst fl_eval [where e = "70"]) (simp_all add: rint_def Let_def power_divide)
  have s5: "rint 1200000000000000000000 = 1200000000000000000000"
    by (simp add: rint_def Let_def)
  have s6: "fl (1200000000000000000000 / 10 ^ 2) = Fin 12000000000000000000"
    by (subst fl_eval [where e = "63"]) (simp_all add: rint_def Let_def power_divide)
  show ?thesis
    by (simp only: f64_forecast_def dec_4000000000000000000_0 dec_2_0 dec_12000000000000000000_0 bind.bind_lunit f64_add.simps option.map
        f64_pow.simps mul_cell.simps f64_mul.simps f64_round.simps f64.case s1 s2 s3 s4 s5 s6)
qed

lemma float_cell_0_2:
  "f64_forecast 2 (Some (dec 4000000000000000000 0)) (Some (dec 2 0)) = Some (dec 36000000000000000000 0)"
proof -
  have s1: "fl (1 + 2) = Fin 3"
    by (subst fl_eval [where e = "1"]) (simp_all add: rint_def Let_def power_divide)
  have s2: "fl (3 ^ 2) = Fin 9"
    by (subst fl_eval [where e = "3"]) (simp_all add: rint_def Let_def power_divide)
  have s3: "fl (4000000000000000000 * 9) = Fin 36000000000000000000"
    by (subst fl_eval [where e = "64"]) (simp_all add: rint_def Let_def power_divide)
  have s4: "fl (36000000000000000000 * 10 ^ 2) = Fin 3600000000000000000000"
    by (subst fl_eval [where e = "71"]) (simp_all add: rint_def Let_def power_divide)
  have s5: "rint 3600000000000000000000 = 3600000000000000000000"
    by (simp add: rint_def Let_def)
  have s6: "fl (3600000000000000000000 / 10 ^ 2) = Fin 36000000000000000000"
    by (subst fl_eval [where e = "64"]) (simp_all add: rint_def Let_def power_divide)
  show ?thesis
    by (simp only: f64_forecast_def dec_4000000000000000000_0 dec_2_0 dec_36000000000000000000_0 bind.bind_lunit f64_add.simps option.map
        f64_pow.simps mul_cell.simps f64_mul.simps f64_round.simps f64.case s1 s2 s3 s4 s5 s6)
qed

lemma float_cell_0_3:
  "f64_forecast 3 (Some (dec 4000000000000000000 0)) (Some (dec 2 0)) = Some (dec 108000000000000000000 0)"
proof -
  have s1: "fl (1 + 2) = Fin 3"
    by (subst fl_eval [where e = "1"]) (simp_all add: rint_def Let_def power_divide)
  have s2: "fl (3 ^ 3) = Fin 27"
    by (subst fl_eval [where e = "4"]) (simp_all add: rint_def Let_def power_divide)
  have s3: "fl (4000000000000000000 * 27) = Fin 108000000000000000000"
    by (subst fl_eval [where e = "66"]) (simp_all add: rint_def Let_def power_divide)
  have s4: "fl (108000000000000000000 * 10 ^ 2) = Fin 10800000000000000000000"
    by (subst fl_eval [where e = "73"]) (simp_all add: rint_def Let_def power_divide)
  have s5: "rint 10800000000000000000000 = 10800000000000000000000"
    by (simp add: rint_def Let_def)
  have s6: "fl (10800000000000000000000 / 10 ^ 2) = Fin 108000000000000000000"
    by (subst fl_eval [where e = "66"]) (simp_all add: rint_def Let_def power_divide)
  show ?thesis
    by (simp only: f64_forecast_def dec_4000000000000000000_0 dec_2_0 dec_108000000000000000000_0 bind.bind_lunit f64_add.simps option.map
        f64_pow.simps mul_cell.simps f64_mul.simps f64_round.simps f64.case s1 s2 s3 s4 s5 s6)
qed

lemma overflow_cell_0_1:
  "f64_forecast 1 (Some (dec 0 0)) (Some (sci 1 200)) = Some (dec 0 1)"
proof -
  have s1: "fl (1 + 99999999999999996973312221251036165947450327545502362648241750950346848435554075534196338404706251868027512415973882408182135734368278484639385041047239877871023591066789981811181813306167128854888448) = Fin 99999999999999996973312221251036165947450327545502362648241750950346848435554075534196338404706251868027512415973882408182135734368278484639385041047239877871023591066789981811181813306167128854888448"
    by (subst fl_eval [where e = "664"]) (simp_all add: rint_def Let_def power_divide)
  have s2: "fl (99999999999999996973312221251036165947450327545502362648241750950346848435554075534196338404706251868027512415973882408182135734368278484639385041047239877871023591066789981811181813306167128854888448 ^ 1) = Fin 99999999999999996973312221251036165947450327545502362648241750950346848435554075534196338404706251868027512415973882408182135734368278484639385041047239877871023591066789981811181813306167128854888448"
    by (subst fl_eval [where e = "664"]) (simp_all add: rint_def Let_def power_divide)
  have s3: "fl (0 * 99999999999999996973312221251036165947450327545502362648241750950346848435554075534196338404706251868027512415973882408182135734368278484639385041047239877871023591066789981811181813306167128854888448) = Fin 0"
    by simp
  have s4: "fl (0 * 10 ^ 2) = Fin 0"
    by simp
  have s5: "rint 0 = 0"
    by (simp add: rint_def Let_def)
  have s6: "fl (0 / 10 ^ 2) = Fin 0"
    by simp
  show ?thesis
    by (simp only: f64_forecast_def dec_0_0 sci_1_200 dec_0_1 bind.bind_lunit f64_add.simps option.map
        f64_pow.simps mul_cell.simps f64_mul.simps f64_round.simps f64.case s1 s2 s3 s4 s5 s6)
qed

lemma overflow_cell_0_2:
  "f64_forecast 2 (Some (dec 0 0)) (Some (sci 1 200)) = None"
proof -
  have s1: "fl (1 + 99999999999999996973312221251036165947450327545502362648241750950346848435554075534196338404706251868027512415973882408182135734368278484639385041047239877871023591066789981811181813306167128854888448) = Fin 99999999999999996973312221251036165947450327545502362648241750950346848435554075534196338404706251868027512415973882408182135734368278484639385041047239877871023591066789981811181813306167128854888448"
    by (subst fl_eval [where e = "664"]) (simp_all add: rint_def Let_def power_divide)
  have s2: "fl (99999999999999996973312221251036165947450327545502362648241750950346848435554075534196338404706251868027512415973882408182135734368278484639385041047239877871023591066789981811181813306167128854888448 ^ 2) = PInf"
    by (rule fl_huge) (simp add: power_divide)
  show ?thesis
    by (simp only: f64_forecast_def dec_0_0 sci_1_200 bind.bind_lunit f64_add.simps option.map
        f64_pow.simps s1 s2) simp
qed

lemma overflow_cell_0_3:
  "f64_forecast 3 (Some (dec 0 0)) (Some (sci 1 200)) = None"
proof -
  have s1: "fl (1 + 99999999999999996973312221251036165947450327545502362648241750950346848435554075534196338404706251868027512415973882408182135734368278484639385041047239877871023591066789981811181813306167128854888448) = Fin 99999999999999996973312221251036165947450327545502362648241750950346848435554075534196338404706251868027512415973882408182135734368278484639385041047239877871023591066789981811181813306167128854888448"
    by (subst fl_eval [where e = "664"]) (simp_all add: rint_def Let_def power_divide)
  have s2: "fl (99999999999999996973312221251036165947450327545502362648241750950346848435554075534196338404706251868027512415973882408182135734368278484639385041047239877871023591066789981811181813306167128854888448 ^ 3) = PInf"
    by (rule fl_huge) (simp add: power_divide)
  show ?thesis
    by (simp only: f64_forecast_def dec_0_0 sci_1_200 bind.bind_lunit f64_add.simps option.map
        f64_pow.simps s1 s2) simp
qed

text \<open>The runs on the sample tables.\<close>

lemma sample_rows: "has_rows 8 sample_df"
  by (simp add: has_rows_def sample_df_def)

lemma sample_cols:
  "getitem sample_df loc_cagr_col = Inr (Float64 [Some (dec 10 2), None, None, Some (dec 0 0), Some (dec 3 2), None, Some (dec 0 0),
        Some (dec 0 0)])"
  "getitem sample_df city_cagr_col = Inr (Float64 [Some (dec 5 2), Some (dec 4 2), None, Some (dec 5 2), None, Some (dec 5 2), None,
        None])"
  "getitem sample_df price_col = Inr (Float64 [Some (dec 100 0), Some (dec 200 0), Some (dec 50 0), Some (dec 75125 3), None,
        Some (dec 1000 0), Some (dec 2675 3), Some (dec 575 3)])"
  by (simp_all add: getitem_def sample_df_def price_col_def loc_cagr_col_def city_cagr_col_def)

lemma sample_run: "forecaster sample_df = Inr sample_out"
  using run_Float64 [OF sample_cols]
  by (simp del: not_None_eq One_nat_def add: sample_out_def sample_new_def sample_df_def new_frame_def select_def source_of_def
      np_where_str_def np_where_str2_def
      sample_cell_0_1 sample_cell_0_2 sample_cell_0_3 sample_cell_1_1 sample_cell_1_2
      sample_cell_1_3 sample_cell_3_1 sample_cell_3_2 sample_cell_3_3 sample_cell_5_1
      sample_cell_5_2 sample_cell_5_3 sample_cell_6_1 sample_cell_6_2 sample_cell_6_3
      sample_cell_7_1 sample_cell_7_2 sample_cell_7_3)

lemma sample_row_0:
  "row_at sample_out 0 = Some \<lparr>price = Some (F64 (dec 100 0)), locality_cagr = Some (F64 (dec 10 2)),
     city_cagr = Some (F64 (dec 5 2)), chosen_cagr = Some (F64 (dec 10 2)), cagr_source = Str ''locality'',
     plus_1yr = Some (F64 (dec 1100 1)), plus_2yr = Some (F64 (dec 1210 1)),
     plus_3yr = Some (F64 (dec 1331 1))\<rparr>"
  by (simp del: One_nat_def add: row_at_def num_cell_def object_cell_def getitem_def sample_out_def sample_df_def sample_new_def
      price_col_def loc_cagr_col_def city_cagr_col_def)

lemma sample_row_1:
  "row_at sample_out (Suc 0) = Some \<lparr>price = Some (F64 (dec 200 0)), locality_cagr = None,
     city_cagr = Some (F64 (dec 4 2)), chosen_cagr = Some (F64 (dec 4 2)), cagr_source = Str ''city'',
     plus_1yr = Some (F64 (dec 2080 1)), plus_2yr = Some (F64 (dec 21632 2)),
     plus_3yr = Some (F64 (dec 22497 2))\<rparr>"
  by (simp del: One_nat_def add: row_at_def num_cell_def object_cell_def getitem_def sample_out_def sample_df_def sample_new_def
      price_col_def loc_cagr_col_def city_cagr_col_def)

lemma sample_row_2:
  "row_at sample_out 2 = Some \<lparr>price = Some (F64 (dec 50 0)), locality_cagr = None,
     city_cagr = None, chosen_cagr = None, cagr_source = Str ''none'',
     plus_1yr = None, plus_2yr = None,
     plus_3yr = None\<rparr>"
  by (simp del: One_nat_def add: row_at_def num_cell_def object_cell_def getitem_def sample_out_def sample_df_def sample_new_def
      price_col_def loc_cagr_col_def city_cagr_col_def)

lemma sample_row_3:
  "row_at sample_out 3 = Some \<lparr>price = Some (F64 (dec 75125 3)), locality_cagr = Some (F64 (dec 0 0)),
     city_cagr = Some (F64 (dec 5 2)), chosen_cagr = Some (F64 (dec 0 0)), cagr_source = Str ''locality'',
     plus_1yr = Some (F64 (dec 7512 2)), plus_2yr = Some (F64 (dec 7512 2)),
     plus_3yr = Some (F64 (dec 7512 2))\<rparr>"
  by (simp del: One_nat_def add: row_at_def num_cell_def object_cell_def getitem_def sample_out_def sample_df_def sample_new_def
      price_col_def loc_cagr_col_def city_cagr_col_def)

lemma sample_row_4:
  "row_at sample_out 4 = Some \<lparr>price = None, locality_cagr = Some (F64 (dec 3 2)),
     city_cagr = None, chosen_cagr = Some (F64 (dec 3 2)), cagr_source = Str ''locality'',
     plus_1yr = None, plus_2yr = None,
     plus_3yr = None\<rparr>"
  by (simp del: One_nat_def add: row_at_def num_cell_def object_cell_def getitem_def sample_out_def sample_df_def sample_new_def
      price_col_def loc_cagr_col_def city_cagr_col_def)


lemma sample_row_6:
  "row_at sample_out 6 = Some \<lparr>price = Some (F64 (dec 2675 3)), locality_cagr = Some (F64 (dec 0 0)),
     city_cagr = None, chosen_cagr = Some (F64 (dec 0 0)), cagr_source = Str ''locality'',
     plus_1yr = Some (F64 (dec 268 2)), plus_2yr = Some (F64 (dec 268 2)),
     plus_3yr = Some (F64 (dec 268 2))\<rparr>"
  by (simp del: One_nat_def add: row_at_def num_cell_def object_cell_def getitem_def sample_out_def sample_df_def sample_new_def
      price_col_def loc_cagr_col_def city_cagr_col_def)

lemma sample_row_7:
  "row_at sample_out 7 = Some \<lparr>price = Some (F64 (dec 575 3)), locality_cagr = Some (F64 (dec 0 0)),
     city_cagr = None, chosen_cagr = Some (F64 (dec 0 0)), cagr_source = Str ''locality'',
     plus_1yr = Some (F64 (dec 57 2)), plus_2yr = Some (F64 (dec 57 2)),
     plus_3yr = Some (F64 (dec 57 2))\<rparr>"
  by (simp del: One_nat_def add: row_at_def num_cell_def object_cell_def getitem_def sample_out_def sample_df_def sample_new_def
      price_col_def loc_cagr_col_def city_cagr_col_def)

lemma sample_restricted: "restrict_cols (map fst sample_df) sample_out = sample_df"
  by (simp add: restrict_cols_def sample_out_def sample_df_def sample_new_def)

lemma tagged_cols:
  "getitem tagged_df loc_cagr_col = Inr (Float64 [Some (dec 10 2)])"
  "getitem tagged_df city_cagr_col = Inr (Float64 [Some (dec 5 2)])"
  "getitem tagged_df price_col = Inr (Float64 [Some (dec 100 0)])"
  by (simp_all add: getitem_def tagged_df_def price_col_def loc_cagr_col_def city_cagr_col_def)

lemma tagged_run: "forecaster tagged_df = Inr tagged_out"
  using run_Float64 [OF tagged_cols]
  by (simp del: not_None_eq One_nat_def add: tagged_out_def tagged_df_def new_frame_def select_def source_of_def
      np_where_str_def np_where_str2_def sample_cell_0_1 sample_cell_0_2 sample_cell_0_3)

lemma tagged_row_0:
  "row_at tagged_out 0 = Some \<lparr>price = Some (F64 (dec 100 0)), locality_cagr = Some (F64 (dec 10 2)),
     city_cagr = Some (F64 (dec 5 2)), chosen_cagr = Some (F64 (dec 10 2)), cagr_source = Str ''locality'',
     plus_1yr = Some (F64 (dec 1100 1)), plus_2yr = Some (F64 (dec 1210 1)),
     plus_3yr = Some (F64 (dec 1331 1))\<rparr>"
  by (simp del: One_nat_def add: row_at_def num_cell_def object_cell_def getitem_def tagged_out_def
      price_col_def loc_cagr_col_def city_cagr_col_def)

lemma float_rows: "has_rows 1 float_df"
  by (simp add: has_rows_def float_df_def)

lemma float_cols:
  "getitem float_df loc_cagr_col = Inr (Float64 [Some (dec 2 0)])"
  "getitem float_df city_cagr_col = Inr (Float64 [Some (dec 2 0)])"
  "getitem float_df price_col = Inr (Float64 [Some (dec 4000000000000000000 0)])"
  by (simp_all add: getitem_def float_df_def price_col_def loc_cagr_col_def city_cagr_col_def)

lemma float_run: "forecaster float_df = Inr float_out"
  using run_Float64 [OF float_cols]
  by (simp del: not_None_eq One_nat_def add: float_out_def float_df_def new_frame_def select_def source_of_def
      np_where_str_def np_where_str2_def
      float_cell_0_1 float_cell_0_2 float_cell_0_3)

lemma float_row_0:
  "row_at float_out 0 = Some \<lparr>price = Some (F64 (dec 4000000000000000000 0)), locality_cagr = Some (F64 (dec 2 0)),
     city_cagr = Some (F64 (dec 2 0)), chosen_cagr = Some (F64 (dec 2 0)), cagr_source = Str ''locality'',
     plus_1yr = Some (F64 (dec 12000000000000000000 0)), plus_2yr = Some (F64 (dec 36000000000000000000 0)),
     plus_3yr = Some (F64 (dec 108000000000000000000 0))\<rparr>"
  by (simp del: One_nat_def add: row_at_def num_cell_def object_cell_def getitem_def float_out_def float_df_def
      price_col_def loc_cagr_col_def city_cagr_col_def)

lemma overflow_rows: "has_rows 1 overflow_df"
  by (simp add: has_rows_def overflow_df_def)

lemma overflow_cols:
  "getitem overflow_df loc_cagr_col = Inr (Float64 [Some (sci 1 200)])"
  "getitem overflow_df city_cagr_col = Inr (Float64 [None])"
  "getitem overflow_df price_col = Inr (Float64 [Some (dec 0 0)])"
  by (simp_all add: getitem_def overflow_df_def price_col_def loc_cagr_col_def city_cagr_col_def)

lemma overflow_run: "forecaster overflow_df = Inr overflow_out"
  using run_Float64 [OF overflow_cols]
  by (simp del: not_None_eq One_nat_def add: overflow_out_def overflow_df_def new_frame_def select_def source_of_def
      np_where_str_def np_where_str2_def
      overflow_cell_0_1 overflow_cell_0_2 overflow_cell_0_3)

lemma overflow_row_0:
  "row_at overflow_out 0 = Some \<lparr>price = Some (F64 (dec 0 0)), locality_cagr = Some (F64 (sci 1 200)),
     city_cagr = None, chosen_cagr = Some (F64 (sci 1 200)), cagr_source = Str ''locality'',
     plus_1yr = Some (F64 (dec 0 1)), plus_2yr = None,
     plus_3yr = None\<rparr>"
  by (simp del: One_nat_def add: row_at_def num_cell_def object_cell_def getitem_def overflow_out_def overflow_df_def
      price_col_def loc_cagr_col_def city_cagr_col_def)

lemma int_rows: "has_rows 1 int_df"
  by (simp add: has_rows_def int_df_def)

lemma int_run: "forecaster int_df = Inr int_out"
  by (simp add: forecaster_def set_chosen_cagr_def set_cagr_source_def set_forecast_def forecast_def
      getitem_def int_df_def int_out_def price_col_def loc_cagr_col_def city_cagr_col_def select_def np_where_str_def
      np_where_str2_def wrap64_def)

lemma int_row_0:
  "row_at int_out 0 = Some \<lparr>price = Some (I64 (4000000000000000000)), locality_cagr = Some (I64 (2)),
     city_cagr = Some (I64 (2)), chosen_cagr = Some (I64 (2)), cagr_source = Str ''locality'',
     plus_1yr = Some (I64 (- 6446744073709551616)), plus_2yr = Some (I64 (- 893488147419103232)),
     plus_3yr = Some (I64 (- 2680464442257309696))\<rparr>"
  by (simp del: One_nat_def add: row_at_def num_cell_def object_cell_def getitem_def int_out_def int_df_def
      price_col_def loc_cagr_col_def city_cagr_col_def)

text \<open>The table of mixed dtypes: every operation on it is exact.\<close>

lemma mixed_rows: "has_rows 2 mixed_df"
  by (simp add: has_rows_def mixed_df_def)

lemma mixed_run: "forecaster mixed_df = Inr mixed_out"
  by (simp del: not_None_eq add: forecaster_def set_chosen_cagr_def set_cagr_source_def
      set_forecast_def forecast_def getitem_def mixed_df_def mixed_out_def price_col_def
      loc_cagr_col_def city_cagr_col_def select_def np_where_str_def np_where_str2_def
      int64_as_float64_def dec_def fl_numeral rint_numeral)

lemma mixed_row_0:
  "row_at mixed_out 0 = Some \<lparr>price = Some (I64 5000), locality_cagr = Some (I64 0),
     city_cagr = Some (F64 (dec 5 2)), chosen_cagr = Some (F64 (Fin 0)),
     cagr_source = Str ''locality'', plus_1yr = Some (F64 (Fin 5000)),
     plus_2yr = Some (F64 (Fin 5000)), plus_3yr = Some (F64 (Fin 5000))\<rparr>"
  by (simp add: row_at_def num_cell_def object_cell_def getitem_def mixed_out_def mixed_df_def
      price_col_def loc_cagr_col_def city_cagr_col_def dec_def fl_numeral)



lemma wrap_rows: "has_rows 1 wrap_df"
  by (simp add: has_rows_def wrap_df_def)



lemma mixed_row_1:
  "row_at mixed_out (Suc 0) = Some \<lparr>price = Some (I64 200), locality_cagr = Some (I64 1),
     city_cagr = None, chosen_cagr = Some (F64 (Fin 1)),
     cagr_source = Str ''locality'', plus_1yr = Some (F64 (Fin 400)),
     plus_2yr = Some (F64 (Fin 800)), plus_3yr = Some (F64 (Fin 1600))\<rparr>"
  by (simp add: row_at_def num_cell_def object_cell_def getitem_def mixed_out_def mixed_df_def
      price_col_def loc_cagr_col_def city_cagr_col_def dec_def fl_numeral)

section \<open>The properties of the specification\<close>

subsection \<open>The chosen growth rate and its source\<close>

text \<open>
  Claim C1. In every row of the result, the chosen growth rate is the locality rate when the
  locality rate is present and the city rate otherwise, and the source is \<^verbatim>\<open>locality\<close> when
  the locality rate is present, \<^verbatim>\<open>city\<close> when only the city rate is present, and
  \<^verbatim>\<open>none\<close> when both are absent. The chosen rate has the common dtype of the two rate
  columns: where both are float64, or both are int64, it is the very cell it is taken from;
  where one is int64 and the other float64, it is that cell as a float64.
\<close>

theorem chosen_cagr_by_priority:
  assumes "forecaster df = Inr out" and "has_rows n df" and "i < n"
  shows "\<exists>r. row_at out i = Some r
    \<and> chosen_cagr r = promote (locality_cagr r) (city_cagr r)
          (if locality_cagr r \<noteq> None then locality_cagr r else city_cagr r)
    \<and> (is_int64 (locality_cagr r) = is_int64 (city_cagr r) \<longrightarrow>
          chosen_cagr r = (if locality_cagr r \<noteq> None then locality_cagr r else city_cagr r))
    \<and> cagr_source r = Str (if locality_cagr r \<noteq> None then ''locality''
          else if city_cagr r \<noteq> None then ''city'' else ''none'')"
proof -
  from forecaster_row_exists [OF assms] obtain r where r: "row_at out i = Some r" ..
  note f = forecaster_row(1,2) [OF assms(1) r]
  have "chosen_cagr r = (if locality_cagr r \<noteq> None then locality_cagr r else city_cagr r)"
    if "is_int64 (locality_cagr r) = is_int64 (city_cagr r)"
    using f(1) that by (simp add: promote_same)
  with r f show ?thesis by blast
qed

theorem chosen_cagr_by_priority_witness:
  "forecaster sample_df = Inr sample_out \<and> has_rows 8 sample_df
   \<and> (\<exists>r. row_at sample_out (Suc 0) = Some r \<and> locality_cagr r = None
        \<and> chosen_cagr r = Some (F64 (dec 4 2)) \<and> cagr_source r = Str ''city'')
   \<and> forecaster mixed_df = Inr mixed_out \<and> has_rows 2 mixed_df
   \<and> (\<exists>r. row_at mixed_out (Suc 0) = Some r \<and> locality_cagr r = Some (I64 1)
        \<and> city_cagr r = None \<and> chosen_cagr r = Some (F64 (Fin 1))
        \<and> cagr_source r = Str ''locality'')"
proof -
  have "Suc 0 < 8" by simp
  from chosen_cagr_by_priority [OF sample_run sample_rows this]
  obtain r where r: "row_at sample_out (Suc 0) = Some r"
    and c: "is_int64 (locality_cagr r) = is_int64 (city_cagr r) \<longrightarrow>
          chosen_cagr r = (if locality_cagr r \<noteq> None then locality_cagr r else city_cagr r)"
    and s: "cagr_source r = Str (if locality_cagr r \<noteq> None then ''locality''
          else if city_cagr r \<noteq> None then ''city'' else ''none'')"
    by blast
  from r have "locality_cagr r = None" "city_cagr r = Some (F64 (dec 4 2))"
    by (auto simp: sample_row_1)
  with r c s have a: "\<exists>r. row_at sample_out (Suc 0) = Some r \<and> locality_cagr r = None
        \<and> chosen_cagr r = Some (F64 (dec 4 2)) \<and> cagr_source r = Str ''city''"
    by simp
  have "Suc 0 < 2" by simp
  from chosen_cagr_by_priority [OF mixed_run mixed_rows this]
  obtain q where q: "row_at mixed_out (Suc 0) = Some q"
    and c': "chosen_cagr q = promote (locality_cagr q) (city_cagr q)
          (if locality_cagr q \<noteq> None then locality_cagr q else city_cagr q)"
    and s': "cagr_source q = Str (if locality_cagr q \<noteq> None then ''locality''
          else if city_cagr q \<noteq> None then ''city'' else ''none'')"
    by blast
  from q have "locality_cagr q = Some (I64 1)" "city_cagr q = None"
    by (auto simp: mixed_row_1)
  with q c' s' have b: "\<exists>r. row_at mixed_out (Suc 0) = Some r \<and> locality_cagr r = Some (I64 1)
        \<and> city_cagr r = None \<and> chosen_cagr r = Some (F64 (Fin 1))
        \<and> cagr_source r = Str ''locality''"
    by (simp add: promote_def)
  from a b show ?thesis
    using sample_run sample_rows mixed_run mixed_rows by blast
qed

subsection \<open>The forecasts\<close>



text \<open>
  Claim C3. A table whose three required columns are numeric is processed without an error,
  whatever cells are missing. In every row where the price or the chosen growth rate is
  absent, the three forecasts are absent; in particular, where both growth rates are absent,
  the source is \<^verbatim>\<open>none\<close> and the three forecasts are missing.
\<close>

theorem missing_propagates:
  assumes "getitem df loc_cagr_col = Inr loc" and "getitem df city_cagr_col = Inr city"
    and "getitem df price_col = Inr p" and "numeric loc" and "numeric city" and "numeric p"
    and "has_rows n df" and "i < n"
  shows "\<exists>out r. forecaster df = Inr out \<and> row_at out i = Some r
    \<and> price r = cells p ! i \<and> locality_cagr r = cells loc ! i \<and> city_cagr r = cells city ! i
    \<and> (price r = None \<or> chosen_cagr r = None \<longrightarrow>
          plus_1yr r = None \<and> plus_2yr r = None \<and> plus_3yr r = None)
    \<and> (locality_cagr r = None \<and> city_cagr r = None \<longrightarrow>
          cagr_source r = Str ''none'' \<and> plus_1yr r = None \<and> plus_2yr r = None \<and> plus_3yr r = None)"
proof -
  from forecaster_total [OF assms(1-6)] obtain out where run: "forecaster df = Inr out" ..
  from forecaster_row_exists [OF run assms(7,8)] obtain r where r: "row_at out i = Some r" ..
  from run obtain f1 f2 f3 where
    out: "out = new_frame df (chosen_of loc city) (source_of loc city) f1 f2 f3"
    and fs: "forecast_of 1 p (chosen_of loc city) = Inr f1"
      "forecast_of 2 p (chosen_of loc city) = Inr f2"
      "forecast_of 3 p (chosen_of loc city) = Inr f3"
    unfolding forecaster_Inr using assms(1-3) by auto
  have len: "col_len loc = n" "col_len city = n" "col_len p = n"
    using has_rows_getitem [OF assms(7)] assms(1-3) by fastforce+
  have inputs: "price r = cells p ! i" "locality_cagr r = cells loc ! i"
    "city_cagr r = cells city ! i"
    using r row_at_new_frame [OF assms(1-3) fs len assms(8)] by (auto simp: out)
  note f = forecaster_row [OF run r]
  have A: "price r = None \<or> chosen_cagr r = None \<longrightarrow>
          plus_1yr r = None \<and> plus_2yr r = None \<and> plus_3yr r = None"
    using f(3-5) by auto
  have B: "locality_cagr r = None \<and> city_cagr r = None \<longrightarrow>
          cagr_source r = Str ''none'' \<and> plus_1yr r = None \<and> plus_2yr r = None \<and> plus_3yr r = None"
    using f by (auto simp: promote_def)
  from run r inputs A B show ?thesis
    by (intro exI [of _ out] exI [of _ r] conjI)
qed

theorem missing_propagates_witness:
  "has_rows 8 sample_df
   \<and> (\<exists>out r. forecaster sample_df = Inr out \<and> row_at out 2 = Some r
        \<and> price r = Some (F64 (dec 50 0)) \<and> locality_cagr r = None \<and> city_cagr r = None
        \<and> cagr_source r = Str ''none''
        \<and> plus_1yr r = None \<and> plus_2yr r = None \<and> plus_3yr r = None)"
proof -
  have "(2::nat) < 8" "numeric (Float64 ls)" for ls by simp_all
  from missing_propagates [OF sample_cols this(2) this(2) this(2) sample_rows this(1)]
  show ?thesis
    using sample_rows by auto
qed

subsection \<open>The table as a whole\<close>

text \<open>
  Claim C4, amended. When the input table has none of the five names \<open>new_columns\<close> among
  its columns, the output table is the input table, every column in its place and unchanged,
  followed by exactly five new columns: the chosen growth rate, its source and the three
  forecasts, each with one cell for every row of the input.
\<close>

theorem output_extends_input:
  assumes "forecaster df = Inr out" and "has_rows n df"
    and "set new_columns \<inter> fst ` set df = {}"
  shows "\<exists>ch src f1 f2 f3.
    out = df @ [(''chosen_cagr'', ch), (''cagr_source'', Object src),
                (''Price_per_SQFT_plus_1yr'', f1), (''Price_per_SQFT_plus_2yr'', f2),
                (''Price_per_SQFT_plus_3yr'', f3)]
    \<and> numeric ch \<and> numeric f1 \<and> numeric f2 \<and> numeric f3
    \<and> col_len ch = n \<and> length src = n \<and> col_len f1 = n \<and> col_len f2 = n \<and> col_len f3 = n"
proof -
  from assms(1) obtain loc city p f1 f2 f3 where
    cols: "getitem df loc_cagr_col = Inr loc" "getitem df city_cagr_col = Inr city"
      "getitem df price_col = Inr p"
    and fs: "forecast_of 1 p (chosen_of loc city) = Inr f1"
      "forecast_of 2 p (chosen_of loc city) = Inr f2"
      "forecast_of 3 p (chosen_of loc city) = Inr f3"
    and out: "out = new_frame df (chosen_of loc city) (source_of loc city) f1 f2 f3"
    unfolding forecaster_Inr by blast
  have len: "col_len loc = n" "col_len city = n" "col_len p = n"
    using has_rows_getitem [OF assms(2)] cols by fastforce+
  have num: "numeric (chosen_of loc city)" "numeric f1" "numeric f2" "numeric f3"
    using forecast_of_numeric [OF fs(1)] forecast_of_numeric [OF fs(2)]
      forecast_of_numeric [OF fs(3)] by simp_all
  have "col_len (chosen_of loc city) = n" "length (source_of loc city) = n"
    "col_len f1 = n" "col_len f2 = n" "col_len f3 = n"
    using len col_len_forecast_of [OF fs(1)] col_len_forecast_of [OF fs(2)]
      col_len_forecast_of [OF fs(3)]
    by (simp_all add: col_len_chosen_of length_source_of)
  with num out new_frame_fresh [OF assms(3), of "chosen_of loc city" "source_of loc city" f1 f2 f3]
  show ?thesis
    by blast
qed

theorem output_extends_input_witness:
  "forecaster sample_df = Inr sample_out \<and> has_rows 8 sample_df
   \<and> set new_columns \<inter> fst ` set sample_df = {}
   \<and> (\<exists>new. sample_out = sample_df @ new \<and> length new = 5)"
proof -
  have fresh: "set new_columns \<inter> fst ` set sample_df = {}"
    by (simp add: new_columns_def sample_df_def)
  from output_extends_input [OF sample_run sample_rows fresh]
  obtain ch src f1 f2 f3 where
    "sample_out = sample_df @ [(''chosen_cagr'', ch), (''cagr_source'', Object src),
                (''Price_per_SQFT_plus_1yr'', f1), (''Price_per_SQFT_plus_2yr'', f2),
                (''Price_per_SQFT_plus_3yr'', f3)]"
    by blast
  moreover have "length [(''chosen_cagr'', ch), (''cagr_source'', Object src),
                (''Price_per_SQFT_plus_1yr'', f1), (''Price_per_SQFT_plus_2yr'', f2),
                (''Price_per_SQFT_plus_3yr'', f3)] = 5"
    by simp
  ultimately have "\<exists>new. sample_out = sample_df @ new \<and> length new = 5"
    by blast
  with fresh show ?thesis
    using sample_run sample_rows by blast
qed

text \<open>
  The claim as stated, for every input table with the three required columns, fails on a
  table that already has a column named \<^verbatim>\<open>cagr_source\<close>: the assignment overwrites that
  column, so an original column changes and only four columns are new.
\<close>

theorem output_extends_input_counterexample:
  "getitem tagged_df price_col = Inr (Float64 [Some (dec 100 0)])
   \<and> getitem tagged_df city_cagr_col = Inr (Float64 [Some (dec 5 2)])
   \<and> getitem tagged_df loc_cagr_col = Inr (Float64 [Some (dec 10 2)])
   \<and> getitem tagged_df ''cagr_source'' = Inr (Object [Str ''survey''])
   \<and> forecaster tagged_df = Inr tagged_out
   \<and> getitem tagged_out ''cagr_source'' = Inr (Object [Str ''locality''])
   \<and> length tagged_out = length tagged_df + 4"
  by (simp add: tagged_run)
    (simp add: getitem_def tagged_df_def tagged_out_def price_col_def city_cagr_col_def
      loc_cagr_col_def)

text \<open>
  Claim C5. When the input table lacks one of the three required columns, the run ends with
  a KeyError for a missing column and leaves the file system as it was: the output file is
  neither created nor modified.
\<close>

theorem missing_column_aborts:
  assumes "files fs input_file = Some df"
    and "loc_cagr_col \<notin> fst ` set df \<or> city_cagr_col \<notin> fst ` set df \<or> price_col \<notin> fst ` set df"
  shows "\<exists>name. name \<in> {loc_cagr_col, city_cagr_col, price_col} \<and> name \<notin> fst ` set df
    \<and> run fs = (Some (KeyError name), fs)"
proof (cases "getitem df loc_cagr_col")
  case (Inl e)
  then have m: "loc_cagr_col \<notin> fst ` set df" and e: "e = KeyError loc_cagr_col"
    by (auto simp: getitem_def map_of_eq_None_iff [symmetric] split: option.splits)
  have "forecaster df = Inl (KeyError loc_cagr_col)"
    using Inl e by (simp add: forecaster_def set_chosen_cagr_def)
  from run_KeyError [OF assms(1) this] m show ?thesis by blast
next
  case loc: (Inr lc)
  show ?thesis
  proof (cases "getitem df city_cagr_col")
    case (Inl e)
    then have m: "city_cagr_col \<notin> fst ` set df" and e: "e = KeyError city_cagr_col"
      by (auto simp: getitem_def map_of_eq_None_iff [symmetric] split: option.splits)
    have "forecaster df = Inl (KeyError city_cagr_col)"
      using loc Inl e by (simp add: forecaster_def set_chosen_cagr_def)
    from run_KeyError [OF assms(1) this] m show ?thesis by blast
  next
    case city: (Inr cc)
    from loc city have "loc_cagr_col \<in> fst ` set df" "city_cagr_col \<in> fst ` set df"
      using getitem_in_names by fastforce+
    with assms(2) have m: "price_col \<notin> fst ` set df" by blast
    have "forecaster df = Inl (KeyError price_col)"
      using loc city getitem_KeyError [OF m]
      by (simp add: forecaster_def set_chosen_cagr_def set_cagr_source_def set_forecast_def
          forecast_def getitem_setitem)
    from run_KeyError [OF assms(1) this] m show ?thesis by blast
  qed
qed

theorem missing_column_aborts_witness:
  "files no_city_fs input_file = Some no_city_df \<and> city_cagr_col \<notin> fst ` set no_city_df
   \<and> run no_city_fs = (Some (KeyError city_cagr_col), no_city_fs)
   \<and> files (snd (run no_city_fs)) output_file = None"
proof -
  have f: "files no_city_fs input_file = Some no_city_df"
    by (simp add: no_city_fs_def)
  have m: "city_cagr_col \<notin> fst ` set no_city_df" "loc_cagr_col \<in> fst ` set no_city_df"
    "price_col \<in> fst ` set no_city_df"
    by (simp_all add: no_city_df_def city_cagr_col_def loc_cagr_col_def price_col_def)
  then have "loc_cagr_col \<notin> fst ` set no_city_df \<or> city_cagr_col \<notin> fst ` set no_city_df
      \<or> price_col \<notin> fst ` set no_city_df"
    by blast
  from missing_column_aborts [OF f this] m
  have r: "run no_city_fs = (Some (KeyError city_cagr_col), no_city_fs)"
    by auto
  have "files no_city_fs output_file = None"
    by (simp add: no_city_fs_def input_file_def output_file_def)
  with f m r show ?thesis by simp
qed

text \<open>
  Claim C6. The transformation is idempotent: applied to its own output it returns that
  output again, and applied to its output restricted to the columns of the input it succeeds
  and yields the same five derived columns, the three forecast columns among them. That two
  runs on the same table agree is the fact that \<open>forecaster\<close> is a function.
\<close>

theorem forecaster_idempotent:
  assumes "forecaster df = Inr out"
  shows "forecaster out = Inr out
    \<and> (\<exists>out'. forecaster (restrict_cols (map fst df) out) = Inr out'
          \<and> (\<forall>name \<in> set new_columns. getitem out' name = getitem out name))"
proof -
  from assms obtain loc city p f1 f2 f3 where
    cols: "getitem df loc_cagr_col = Inr loc" "getitem df city_cagr_col = Inr city"
      "getitem df price_col = Inr p"
    and fs: "forecast_of 1 p (chosen_of loc city) = Inr f1"
      "forecast_of 2 p (chosen_of loc city) = Inr f2"
      "forecast_of 3 p (chosen_of loc city) = Inr f3"
    and out: "out = new_frame df (chosen_of loc city) (source_of loc city) f1 f2 f3"
    unfolding forecaster_Inr by blast
  have kept: "getitem out loc_cagr_col = Inr loc" "getitem out city_cagr_col = Inr city"
    "getitem out price_col = Inr p"
    using cols by (simp_all add: out getitem_new_frame)
  have again: "forecaster out = Inr out"
    unfolding forecaster_Inr using kept fs new_frame_fixpoint [OF out] by metis
  define df' where "df' = restrict_cols (map fst df) out"
  have "getitem df' loc_cagr_col = Inr loc" "getitem df' city_cagr_col = Inr city"
    "getitem df' price_col = Inr p"
    using kept getitem_in_names [OF cols(1)] getitem_in_names [OF cols(2)]
      getitem_in_names [OF cols(3)]
    by (simp_all add: df'_def getitem_restrict_cols)
  then have run': "forecaster df' =
      Inr (new_frame df' (chosen_of loc city) (source_of loc city) f1 f2 f3)"
    unfolding forecaster_Inr using fs by blast
  have "\<forall>name \<in> set new_columns.
      getitem (new_frame df' (chosen_of loc city) (source_of loc city) f1 f2 f3) name
        = getitem out name"
    by (simp add: new_columns_def out getitem_new_frame)
  with again run' show ?thesis
    unfolding df'_def by blast
qed

theorem forecaster_idempotent_witness:
  "forecaster sample_df = Inr sample_out \<and> forecaster sample_out = Inr sample_out
   \<and> restrict_cols (map fst sample_df) sample_out = sample_df
   \<and> forecaster (restrict_cols (map fst sample_df) sample_out) = Inr sample_out
   \<and> getitem sample_out ''Price_per_SQFT_plus_3yr'' = Inr (Float64
       [Some (dec 1331 1), Some (dec 22497 2), None, Some (dec 7512 2), None,
        Some (dec 115763 2), Some (dec 268 2), Some (dec 57 2)])"
proof -
  from forecaster_idempotent [OF sample_run]
  have "forecaster sample_out = Inr sample_out" by blast
  moreover have "getitem sample_out ''Price_per_SQFT_plus_3yr'' = Inr (Float64
       [Some (dec 1331 1), Some (dec 22497 2), None, Some (dec 7512 2), None,
        Some (dec 115763 2), Some (dec 268 2), Some (dec 57 2)])"
    by (simp add: getitem_def sample_out_def sample_df_def sample_new_def)
  ultimately show ?thesis
    using sample_run sample_restricted by simp
qed

subsection \<open>The forecasts as functions of price and rate\<close>

text \<open>
  Claim C7, amended. The three forecasts of a row are determined by its price and its chosen
  growth rate, each taken with the dtype of its column: two rows, of one run or of two runs,
  that agree on both cells, dtype included, agree on the three forecasts.
\<close>

theorem forecast_deterministic:
  assumes "forecaster df = Inr out" and "forecaster df' = Inr out'"
    and "row_at out i = Some r" and "row_at out' j = Some r'"
    and "price r = price r'" and "chosen_cagr r = chosen_cagr r'"
  shows "plus_1yr r = plus_1yr r' \<and> plus_2yr r = plus_2yr r' \<and> plus_3yr r = plus_3yr r'"
  using forecaster_row(3-5) [OF assms(1,3)] forecaster_row(3-5) [OF assms(2,4)] assms(5,6)
  by simp

theorem forecast_deterministic_witness:
  "forecaster sample_df = Inr sample_out \<and> forecaster tagged_df = Inr tagged_out
   \<and> (\<exists>r r'. row_at sample_out 0 = Some r \<and> row_at tagged_out 0 = Some r'
        \<and> price r = price r' \<and> chosen_cagr r = chosen_cagr r'
        \<and> plus_1yr r = plus_1yr r' \<and> plus_2yr r = plus_2yr r' \<and> plus_3yr r = plus_3yr r')"
proof -
  obtain r r' where r: "row_at sample_out 0 = Some r" and r': "row_at tagged_out 0 = Some r'"
    by (simp add: sample_row_0 tagged_row_0)
  have eq: "price r = price r'" "chosen_cagr r = chosen_cagr r'"
    using r r' by (auto simp: sample_row_0 tagged_row_0)
  from forecast_deterministic [OF sample_run tagged_run r r' eq] r r' eq
  show ?thesis
    using sample_run tagged_run by blast
qed

text \<open>
  The claim as stated, for equal values of the two inputs, fails when the equal numbers are
  held in columns of different dtypes. With the price \<open>4 * 10 ^ 18\<close> and the rate \<open>2\<close>, the
  forecast for one year is \<open>12 * 10 ^ 18\<close> in float64 columns, and in int64 columns the
  product wraps around to a negative number.
\<close>

theorem forecast_deterministic_counterexample:
  "forecaster int_df = Inr int_out \<and> forecaster float_df = Inr float_out
   \<and> row_at int_out 0 = Some \<lparr>price = Some (I64 4000000000000000000),
        locality_cagr = Some (I64 2), city_cagr = Some (I64 2), chosen_cagr = Some (I64 2),
        cagr_source = Str ''locality'', plus_1yr = Some (I64 (- 6446744073709551616)),
        plus_2yr = Some (I64 (- 893488147419103232)),
        plus_3yr = Some (I64 (- 2680464442257309696))\<rparr>
   \<and> row_at float_out 0 = Some \<lparr>price = Some (F64 (dec 4000000000000000000 0)),
        locality_cagr = Some (F64 (dec 2 0)), city_cagr = Some (F64 (dec 2 0)),
        chosen_cagr = Some (F64 (dec 2 0)), cagr_source = Str ''locality'',
        plus_1yr = Some (F64 (dec 12000000000000000000 0)),
        plus_2yr = Some (F64 (dec 36000000000000000000 0)),
        plus_3yr = Some (F64 (dec 108000000000000000000 0))\<rparr>
   \<and> to_f64 (I64 4000000000000000000) = dec 4000000000000000000 0
   \<and> to_f64 (I64 2) = dec 2 0
   \<and> to_f64 (I64 (- 6446744073709551616)) \<noteq> dec 12000000000000000000 0"
proof -
  have "fl (- 6446744073709551616) = Fin (- 6446744073709551616)"
    by (subst fl_eval [where e = 62]) (simp_all add: rint_def Let_def)
  then have "to_f64 (I64 (- 6446744073709551616)) \<noteq> dec 12000000000000000000 0"
    by (simp add: dec_12000000000000000000_0)
  moreover have "to_f64 (I64 4000000000000000000) = dec 4000000000000000000 0"
    "to_f64 (I64 2) = dec 2 0"
    by (simp_all add: dec_def)
  ultimately show ?thesis
    by (simp only: int_run float_run int_row_0 float_row_0 simp_thms)
qed

text \<open>
  Claim C8, amended. In every row, each of the three forecasts is absent when the price or
  the chosen growth rate is absent. When both are present, the forecast is present unless
  the product of the price and the growth factor \<^verbatim>\<open>(1 + rate) ** k\<close> is zero times an
  infinity in float64, which is NaN.
\<close>

theorem forecast_present_iff:
  assumes "forecaster df = Inr out" and "has_rows n df" and "i < n"
  shows "\<exists>r. row_at out i = Some r
    \<and> (plus_1yr r \<noteq> None \<longleftrightarrow> price r \<noteq> None \<and> chosen_cagr r \<noteq> None
          \<and> \<not> zero_times_infinity (price r) (cell_pow (cell_radd 1 (chosen_cagr r)) 1))
    \<and> (plus_2yr r \<noteq> None \<longleftrightarrow> price r \<noteq> None \<and> chosen_cagr r \<noteq> None
          \<and> \<not> zero_times_infinity (price r) (cell_pow (cell_radd 1 (chosen_cagr r)) 2))
    \<and> (plus_3yr r \<noteq> None \<longleftrightarrow> price r \<noteq> None \<and> chosen_cagr r \<noteq> None
          \<and> \<not> zero_times_infinity (price r) (cell_pow (cell_radd 1 (chosen_cagr r)) 3))"
proof -
  from forecaster_row_exists [OF assms] obtain r where r: "row_at out i = Some r" ..
  note f = forecaster_row(3-5) [OF assms(1) r]
  have "plus_1yr r \<noteq> None \<longleftrightarrow> price r \<noteq> None \<and> chosen_cagr r \<noteq> None
          \<and> \<not> zero_times_infinity (price r) (cell_pow (cell_radd 1 (chosen_cagr r)) 1)"
    "plus_2yr r \<noteq> None \<longleftrightarrow> price r \<noteq> None \<and> chosen_cagr r \<noteq> None
          \<and> \<not> zero_times_infinity (price r) (cell_pow (cell_radd 1 (chosen_cagr r)) 2)"
    "plus_3yr r \<noteq> None \<longleftrightarrow> price r \<noteq> None \<and> chosen_cagr r \<noteq> None
          \<and> \<not> zero_times_infinity (price r) (cell_pow (cell_radd 1 (chosen_cagr r)) 3)"
    unfolding f by (simp_all only: forecast_cell_eq_None de_Morgan_disj)
  with r show ?thesis by blast
qed

theorem forecast_present_iff_witness:
  "forecaster sample_df = Inr sample_out \<and> has_rows 8 sample_df
   \<and> (\<exists>r. row_at sample_out 4 = Some r \<and> price r = None \<and> chosen_cagr r \<noteq> None
        \<and> plus_1yr r = None \<and> plus_2yr r = None \<and> plus_3yr r = None)
   \<and> (\<exists>r. row_at sample_out 0 = Some r \<and> price r \<noteq> None \<and> chosen_cagr r \<noteq> None
        \<and> \<not> zero_times_infinity (price r) (cell_pow (cell_radd 1 (chosen_cagr r)) 3)
        \<and> plus_1yr r \<noteq> None \<and> plus_2yr r \<noteq> None \<and> plus_3yr r \<noteq> None)"
proof -
  have "(4::nat) < 8" by simp
  from forecast_present_iff [OF sample_run sample_rows this]
  have a: "\<exists>r. row_at sample_out 4 = Some r \<and> price r = None \<and> chosen_cagr r \<noteq> None
        \<and> plus_1yr r = None \<and> plus_2yr r = None \<and> plus_3yr r = None"
    by (auto simp: sample_row_4 simp del: not_None_eq)
  have "(0::nat) < 8" by simp
  from forecast_present_iff [OF sample_run sample_rows this]
  obtain r where r: "row_at sample_out 0 = Some r"
    and e: "plus_3yr r \<noteq> None \<longleftrightarrow> price r \<noteq> None \<and> chosen_cagr r \<noteq> None
          \<and> \<not> zero_times_infinity (price r) (cell_pow (cell_radd 1 (chosen_cagr r)) 3)"
    by blast
  from r have "plus_1yr r \<noteq> None" "plus_2yr r \<noteq> None" "plus_3yr r \<noteq> None"
    by (auto simp: sample_row_0)
  with r e have b: "\<exists>r. row_at sample_out 0 = Some r \<and> price r \<noteq> None \<and> chosen_cagr r \<noteq> None
        \<and> \<not> zero_times_infinity (price r) (cell_pow (cell_radd 1 (chosen_cagr r)) 3)
        \<and> plus_1yr r \<noteq> None \<and> plus_2yr r \<noteq> None \<and> plus_3yr r \<noteq> None"
    by blast
  from a b show ?thesis
    using sample_run sample_rows by blast
qed

text \<open>
  The claim as stated fails on a row with the price \<^verbatim>\<open>0.0\<close> and the rate \<^verbatim>\<open>1e200\<close>: both
  are present, the growth factor for two years overflows to infinity, and the forecasts for
  two and for three years are missing.
\<close>

theorem forecast_present_iff_counterexample:
  "forecaster overflow_df = Inr overflow_out
   \<and> row_at overflow_out 0 = Some \<lparr>price = Some (F64 (dec 0 0)),
        locality_cagr = Some (F64 (sci 1 200)), city_cagr = None,
        chosen_cagr = Some (F64 (sci 1 200)), cagr_source = Str ''locality'',
        plus_1yr = Some (F64 (dec 0 1)), plus_2yr = None, plus_3yr = None\<rparr>"
  by (simp only: overflow_run overflow_row_0 simp_thms)

text \<open>
  Claim C9. In every row where the price is present and the chosen growth rate is 0, the
  three forecasts equal the price rounded to two decimals by the same \<^verbatim>\<open>round\<close>. The price
  is taken in the dtype of the product: as it stands when it is a float64 or when the rate
  is an int64 as well, as a float64 when the price is an int64 and the rate a float64.
\<close>

theorem zero_rate_identity:
  assumes "forecaster df = Inr out" and "has_rows n df" and "i < n"
  shows "\<exists>r. row_at out i = Some r
    \<and> (\<forall>p. price r = Some p \<and> valid_num p
            \<and> (chosen_cagr r = Some (I64 0) \<or> chosen_cagr r = Some (F64 (Fin 0))) \<longrightarrow>
          plus_1yr r = cell_round (promote (price r) (chosen_cagr r) (price r)) 2
        \<and> plus_2yr r = cell_round (promote (price r) (chosen_cagr r) (price r)) 2
        \<and> plus_3yr r = cell_round (promote (price r) (chosen_cagr r) (price r)) 2)"
proof -
  from forecaster_row_exists [OF assms] obtain r where r: "row_at out i = Some r" ..
  note f = forecaster_row(3-5) [OF assms(1) r]
  have "plus_1yr r = cell_round (promote (price r) (chosen_cagr r) (price r)) 2
        \<and> plus_2yr r = cell_round (promote (price r) (chosen_cagr r) (price r)) 2
        \<and> plus_3yr r = cell_round (promote (price r) (chosen_cagr r) (price r)) 2"
    if h: "price r = Some p \<and> valid_num p
            \<and> (chosen_cagr r = Some (I64 0) \<or> chosen_cagr r = Some (F64 (Fin 0)))" for p
  proof -
    from h have p: "price r = Some p" and v: "valid_num p"
      and z: "chosen_cagr r = Some (I64 0) \<or> chosen_cagr r = Some (F64 (Fin 0))"
      by simp_all
    show ?thesis
      unfolding f p using forecast_cell_zero_rate [OF v z] by simp
  qed
  with r show ?thesis by blast
qed

theorem zero_rate_identity_witness:
  "forecaster sample_df = Inr sample_out \<and> has_rows 8 sample_df
   \<and> (\<exists>r. row_at sample_out 6 = Some r \<and> price r = Some (F64 (dec 2675 3))
        \<and> valid_num (F64 (dec 2675 3)) \<and> chosen_cagr r = Some (F64 (Fin 0))
        \<and> plus_1yr r = cell_round (price r) 2 \<and> plus_2yr r = cell_round (price r) 2
        \<and> plus_3yr r = cell_round (price r) 2 \<and> plus_3yr r = Some (F64 (dec 268 2)))
   \<and> forecaster mixed_df = Inr mixed_out \<and> has_rows 2 mixed_df
   \<and> (\<exists>r. row_at mixed_out 0 = Some r \<and> price r = Some (I64 5000) \<and> valid_num (I64 5000)
        \<and> chosen_cagr r = Some (F64 (Fin 0))
        \<and> plus_1yr r = cell_round (as_float64 (price r)) 2
        \<and> plus_2yr r = cell_round (as_float64 (price r)) 2
        \<and> plus_3yr r = cell_round (as_float64 (price r)) 2
        \<and> plus_3yr r = Some (F64 (Fin 5000)))"
proof -
  have "(6::nat) < 8" by simp
  from zero_rate_identity [OF sample_run sample_rows this]
  obtain r where r: "row_at sample_out 6 = Some r"
    and z: "\<forall>p. price r = Some p \<and> valid_num p
            \<and> (chosen_cagr r = Some (I64 0) \<or> chosen_cagr r = Some (F64 (Fin 0))) \<longrightarrow>
          plus_1yr r = cell_round (promote (price r) (chosen_cagr r) (price r)) 2
        \<and> plus_2yr r = cell_round (promote (price r) (chosen_cagr r) (price r)) 2
        \<and> plus_3yr r = cell_round (promote (price r) (chosen_cagr r) (price r)) 2"
    by blast
  from r have i: "price r = Some (F64 (dec 2675 3))" "chosen_cagr r = Some (F64 (Fin 0))"
    "plus_3yr r = Some (F64 (dec 268 2))"
    by (auto simp: sample_row_6 dec_0_0)
  have v: "valid_num (F64 (dec 2675 3))"
    unfolding dec_def by (rule valid_num_fl)
  have pr: "promote (price r) (chosen_cagr r) (price r) = price r"
    by (simp add: i promote_def)
  from z i v have "plus_1yr r = cell_round (promote (price r) (chosen_cagr r) (price r)) 2
        \<and> plus_2yr r = cell_round (promote (price r) (chosen_cagr r) (price r)) 2
        \<and> plus_3yr r = cell_round (promote (price r) (chosen_cagr r) (price r)) 2"
    by blast
  with r i v have a: "\<exists>r. row_at sample_out 6 = Some r \<and> price r = Some (F64 (dec 2675 3))
        \<and> valid_num (F64 (dec 2675 3)) \<and> chosen_cagr r = Some (F64 (Fin 0))
        \<and> plus_1yr r = cell_round (price r) 2 \<and> plus_2yr r = cell_round (price r) 2
        \<and> plus_3yr r = cell_round (price r) 2 \<and> plus_3yr r = Some (F64 (dec 268 2))"
    unfolding pr by blast
  have "(0::nat) < 2" by simp
  from zero_rate_identity [OF mixed_run mixed_rows this]
  obtain q where q: "row_at mixed_out 0 = Some q"
    and z': "\<forall>p. price q = Some p \<and> valid_num p
            \<and> (chosen_cagr q = Some (I64 0) \<or> chosen_cagr q = Some (F64 (Fin 0))) \<longrightarrow>
          plus_1yr q = cell_round (promote (price q) (chosen_cagr q) (price q)) 2
        \<and> plus_2yr q = cell_round (promote (price q) (chosen_cagr q) (price q)) 2
        \<and> plus_3yr q = cell_round (promote (price q) (chosen_cagr q) (price q)) 2"
    by blast
  from q have j: "price q = Some (I64 5000)" "chosen_cagr q = Some (F64 (Fin 0))"
    "plus_3yr q = Some (F64 (Fin 5000))"
    by (auto simp: mixed_row_0)
  have w: "valid_num (I64 5000)" by (simp add: wrap64_def)
  have pq: "promote (price q) (chosen_cagr q) (price q) = as_float64 (price q)"
    by (simp add: j promote_def)
  from z' j w have "plus_1yr q = cell_round (promote (price q) (chosen_cagr q) (price q)) 2
        \<and> plus_2yr q = cell_round (promote (price q) (chosen_cagr q) (price q)) 2
        \<and> plus_3yr q = cell_round (promote (price q) (chosen_cagr q) (price q)) 2"
    by blast
  with q j w have b: "\<exists>r. row_at mixed_out 0 = Some r \<and> price r = Some (I64 5000)
        \<and> valid_num (I64 5000) \<and> chosen_cagr r = Some (F64 (Fin 0))
        \<and> plus_1yr r = cell_round (as_float64 (price r)) 2
        \<and> plus_2yr r = cell_round (as_float64 (price r)) 2
        \<and> plus_3yr r = cell_round (as_float64 (price r)) 2
        \<and> plus_3yr r = Some (F64 (Fin 5000))"
    unfolding pq by blast
  from a b show ?thesis
    using sample_run sample_rows mixed_run mixed_rows by blast
qed




end
